theory Spec2Isabelle
  imports Main "HOL-Library.Sublist"
begin

section \<open>Credential validator (src/lib/websocketAuth.js)\<close>

text \<open>
  Times are the millisecond readings of \<^verbatim>\<open>Date.now()\<close>. The two readings inside one
  synchronous call of \<^verbatim>\<open>validateJWTToken\<close> (lines 63 and 66) are taken as equal.
\<close>

type_synonym time = int

text \<open>
  The payload \<^verbatim>\<open>jwt.verify\<close> hands back. Every claim of a token may be absent
  (\<^verbatim>\<open>undefined\<close> in the source), hence the options.
\<close>

record decoded_jwt =
  d_walletAddress :: "string option"
  d_iat :: "int option"
  d_exp :: "int option"
  d_nonce :: "string option"

text \<open>
  \<^verbatim>\<open>this.usedTokens\<close>: a Map from \<^verbatim>\<open>decoded.nonce\<close> to the time of its
  consumption. The key is whatever \<^verbatim>\<open>decoded.nonce\<close> is, \<^verbatim>\<open>undefined\<close> included.
  The map that was never created (line 46) and the empty map are both the empty map here.
\<close>

type_synonym used_tokens = "string option \<rightharpoonup> time"

datatype jwt_result =
    JwtInvalid string
  | JwtValid "string option" "int option" "int option"

text \<open>
  \<^verbatim>\<open>new Date(secs * 1000).toISOString()\<close> (lines 38 and 39, inside the \<^verbatim>\<open>try\<close>)
  throws a RangeError for an absent claim (the product is NaN) and for a time outside the
  range of a Date.
\<close>

definition toISOString_throws :: "int option \<Rightarrow> bool" where
  "toISOString_throws secs =
     (case secs of None \<Rightarrow> True | Some s \<Rightarrow> \<bar>s * 1000\<bar> > 8640000000000000)"

text \<open>Lines 66 to 71: every entry older than five minutes is deleted.\<close>

definition prune_old :: "time \<Rightarrow> used_tokens \<Rightarrow> used_tokens" where
  "prune_old now used =
     (\<lambda>key. case used key of
               None \<Rightarrow> None
             | Some timestamp \<Rightarrow> if timestamp < now - 5 * 60 * 1000 then None else Some timestamp)"

text \<open>
  \<^verbatim>\<open>validateJWTToken(token)\<close>. The parameter \<open>verify now token\<close> stands for
  \<^verbatim>\<open>jwt.verify(token?.trim().replace(/=+$/, ''), this.jwtSecret)\<close> evaluated at time
  \<open>now\<close>: \<open>Inl msg\<close> when the library throws (malformed token, bad signature, expiry),
  \<open>Inr decoded\<close> otherwise. Every throw inside the \<^verbatim>\<open>try\<close> ends in the
  \<^verbatim>\<open>catch\<close>, which returns the error message and touches no state.
\<close>

definition validateJWTToken ::
  "(time \<Rightarrow> string \<Rightarrow> string + decoded_jwt) \<Rightarrow> time \<Rightarrow> used_tokens \<Rightarrow> string
     \<Rightarrow> jwt_result \<times> used_tokens" where
  "validateJWTToken verify now usedTokens token =
     (case verify now token of
        Inl msg \<Rightarrow> (JwtInvalid msg, usedTokens)
      | Inr decoded \<Rightarrow>
          if toISOString_throws (d_iat decoded) \<or> toISOString_throws (d_exp decoded)
          then (JwtInvalid ''Invalid time value'', usedTokens)
          else (case usedTokens (d_nonce decoded) of
                  Some _ \<Rightarrow> (JwtInvalid ''Token already used'', usedTokens)
                | None \<Rightarrow>
                    (JwtValid (d_walletAddress decoded) (d_iat decoded) (d_exp decoded),
                     prune_old now (usedTokens(d_nonce decoded \<mapsto> now)))))"

text \<open>
  The \<^verbatim>\<open>AUTH_LOGIN\<close> payload. A field is falsy when it is absent or the empty
  string.
\<close>

record auth_payload =
  p_walletAddress :: "string option"
  p_jwtToken :: "string option"

definition falsy :: "string option \<Rightarrow> bool" where
  "falsy v = (case v of None \<Rightarrow> True | Some s \<Rightarrow> s = [])"

datatype auth_result =
    AuthInvalid string
  | AuthValid string jwt_result

text \<open>\<^verbatim>\<open>validateAuthPayload(payload)\<close>; \<open>None\<close> is the missing payload.\<close>

definition validateAuthPayload ::
  "(time \<Rightarrow> string \<Rightarrow> string + decoded_jwt) \<Rightarrow> time \<Rightarrow> used_tokens \<Rightarrow> auth_payload option
     \<Rightarrow> auth_result \<times> used_tokens" where
  "validateAuthPayload verify now usedTokens payload =
     (case payload of
        None \<Rightarrow> (AuthInvalid ''Missing required authentication fields'', usedTokens)
      | Some p \<Rightarrow>
          if falsy (p_walletAddress p) \<or> falsy (p_jwtToken p)
          then (AuthInvalid ''Missing required authentication fields'', usedTokens)
          else (case validateJWTToken verify now usedTokens (the (p_jwtToken p)) of
                  (JwtInvalid msg, usedTokens') \<Rightarrow> (AuthInvalid ''Invalid JWT token'', usedTokens')
                | (JwtValid w i e, usedTokens') \<Rightarrow>
                    if w \<noteq> p_walletAddress p
                    then (AuthInvalid ''Wallet address mismatch'', usedTokens')
                    else (AuthValid (the (p_walletAddress p)) (JwtValid w i e), usedTokens')))"

text \<open>
  A sequence of validation attempts, each at its own time with its own token, whatever
  connection they come from: the validator is one object and takes no connection.
\<close>

fun validateMany ::
  "(time \<Rightarrow> string \<Rightarrow> string + decoded_jwt) \<Rightarrow> used_tokens \<Rightarrow> (time \<times> string) list
     \<Rightarrow> used_tokens" where
  "validateMany verify usedTokens [] = usedTokens"
| "validateMany verify usedTokens ((now, token) # rest) =
     validateMany verify (snd (validateJWTToken verify now usedTokens token)) rest"

text \<open>The times of the attempts of such a sequence that the validator accepts.\<close>

fun acceptedTimes ::
  "(time \<Rightarrow> string \<Rightarrow> string + decoded_jwt) \<Rightarrow> used_tokens \<Rightarrow> (time \<times> string) list
     \<Rightarrow> time list" where
  "acceptedTimes verify usedTokens [] = []"
| "acceptedTimes verify usedTokens ((now, token) # rest) =
     (case validateJWTToken verify now usedTokens token of
        (JwtValid w i e, usedTokens') \<Rightarrow> now # acceptedTimes verify usedTokens' rest
      | (JwtInvalid msg, usedTokens') \<Rightarrow> acceptedTimes verify usedTokens' rest)"

text \<open>
  The server's main endpoint (src/unnamed/part_006, lines 868 to 961) checks the token of
  the URL itself, with the same steps and a record of its own, \<^verbatim>\<open>global.usedTokens\<close>.
  Here \<open>verify now token\<close> stands for
  \<^verbatim>\<open>jwt.verify(token, process.env.JWT_SECRET)\<close>. \<open>Inl\<close> carries the reason the
  socket is closed with; every throw of the \<^verbatim>\<open>try\<close> ends in "Invalid
  authentication token".
\<close>

definition mainEndpointCheck ::
  "(time \<Rightarrow> string \<Rightarrow> string + decoded_jwt) \<Rightarrow> time \<Rightarrow> used_tokens \<Rightarrow> string option
     \<Rightarrow> (string + decoded_jwt) \<times> used_tokens" where
  "mainEndpointCheck verify now globalUsedTokens token =
     (if falsy token then (Inl ''Authentication required'', globalUsedTokens)
      else (case verify now (the token) of
              Inl msg \<Rightarrow> (Inl ''Invalid authentication token'', globalUsedTokens)
            | Inr decoded \<Rightarrow>
                if toISOString_throws (d_iat decoded) \<or> toISOString_throws (d_exp decoded)
                then (Inl ''Invalid authentication token'', globalUsedTokens)
                else (case globalUsedTokens (d_nonce decoded) of
                        Some _ \<Rightarrow> (Inl ''Token already used'', globalUsedTokens)
                      | None \<Rightarrow>
                          (Inr decoded,
                           prune_old now (globalUsedTokens(d_nonce decoded \<mapsto> now))))))"

text \<open>
  The two records of one server process and the two ways a connection presents a token
  (part_006, lines 845 to 962): a connection to \<^verbatim>\<open>/auth\<close> sends
  \<^verbatim>\<open>AUTH_LOGIN\<close> and is checked by the validator against
  \<^verbatim>\<open>this.usedTokens\<close>; a connection to any other URL carries the token in the query
  and is checked inline against \<^verbatim>\<open>global.usedTokens\<close>. \<open>verifyAuth\<close> and
  \<open>verifyMain\<close> stand for the two calls of \<^verbatim>\<open>jwt.verify\<close>. The boolean says
  whether the token was accepted.
\<close>

record token_records =
  tr_validator :: used_tokens
  tr_global :: used_tokens

datatype presentation = AuthLogin "auth_payload option" | MainUrl "string option"

definition presentToken ::
  "(time \<Rightarrow> string \<Rightarrow> string + decoded_jwt) \<Rightarrow> (time \<Rightarrow> string \<Rightarrow> string + decoded_jwt)
     \<Rightarrow> time \<Rightarrow> token_records \<Rightarrow> presentation \<Rightarrow> bool \<times> token_records" where
  "presentToken verifyAuth verifyMain now recs how =
     (case how of
        AuthLogin payload \<Rightarrow>
          (case validateAuthPayload verifyAuth now (tr_validator recs) payload of
             (AuthValid w r, usedTokens') \<Rightarrow> (True, recs\<lparr>tr_validator := usedTokens'\<rparr>)
           | (AuthInvalid msg, usedTokens') \<Rightarrow> (False, recs\<lparr>tr_validator := usedTokens'\<rparr>))
      | MainUrl token \<Rightarrow>
          (case mainEndpointCheck verifyMain now (tr_global recs) token of
             (Inr decoded, globalUsedTokens') \<Rightarrow> (True, recs\<lparr>tr_global := globalUsedTokens'\<rparr>)
           | (Inl reason, globalUsedTokens') \<Rightarrow> (False, recs\<lparr>tr_global := globalUsedTokens'\<rparr>)))"

text \<open>
  Fixtures for the concrete runs below: two well-signed tokens with different nonces,
  everything else malformed.
\<close>

definition example_decoded :: decoded_jwt where
  "example_decoded =
     \<lparr>d_walletAddress = Some ''walletA'', d_iat = Some 1000, d_exp = Some 1300,
      d_nonce = Some ''nonce-1''\<rparr>"

definition example_decoded_B :: decoded_jwt where
  "example_decoded_B =
     \<lparr>d_walletAddress = Some ''walletB'', d_iat = Some 1000, d_exp = Some 1300,
      d_nonce = Some ''nonce-2''\<rparr>"

definition example_verify :: "time \<Rightarrow> string \<Rightarrow> string + decoded_jwt" where
  "example_verify now token =
     (if token = ''tokenA'' then Inr example_decoded
      else if token = ''tokenB'' then Inr example_decoded_B
      else Inl ''jwt malformed'')"

section \<open>The source of record, as the handlers read and write it\<close>

text \<open>
  The Prisma tables the handlers touch, each as the list of its rows. \<open>available\<close>
  says whether the database answers: when it does not, every Prisma call of a handler
  throws. Columns no modelled handler reads (attachments, message type, replies, user
  profile fields) are left out. The schema itself is not under src/; of its constraints
  the model has the foreign keys of the rows that \<^verbatim>\<open>handleSendMessage\<close> creates
  from the client's payload, which are the relations the handlers' own
  \<^verbatim>\<open>include\<close> clauses name (a member row to its channel and user, a message to its
  channel, author and replied-to message). The other theorems speak of channels and
  messages that exist.
\<close>

type_synonym userId = string
type_synonym channelId = string
type_synonym messageId = string

record channel =
  c_id :: channelId
  c_name :: string
  c_type :: string
  c_isPrivate :: bool

record message =
  m_id :: messageId
  m_channelId :: channelId
  m_authorId :: userId
  m_content :: string
  m_sentAt :: time
  m_deletedAt :: "time option"

record readReceipt =
  r_messageId :: messageId
  r_userId :: userId
  r_readAt :: time

record user =
  u_status :: string
  u_lastSeen :: "time option"

record db =
  available :: bool
  channels :: "channel list"
  channelMembers :: "(channelId \<times> userId) list"
  messages :: "message list"
  readReceipts :: "readReceipt list"
  users :: "userId \<rightharpoonup> user"

text \<open>
  \<^verbatim>\<open>prisma.channelMember.findUnique({where: {channelId_userId: ...}})\<close>, read for
  its truthiness only.
\<close>

definition isMember :: "db \<Rightarrow> channelId \<Rightarrow> userId \<Rightarrow> bool" where
  "isMember d channelId userId = ((channelId, userId) \<in> set (channelMembers d))"

text \<open>
  \<^verbatim>\<open>prisma.channelMember.findMany({where: {channelId}, select: {userId: true}})\<close>
\<close>

definition membersOf :: "db \<Rightarrow> channelId \<Rightarrow> userId list" where
  "membersOf d channelId = map snd (filter (\<lambda>row. fst row = channelId) (channelMembers d))"

text \<open>
  What an awaited handler leaves behind: it returned, or it threw the given message. The
  state is kept either way, since writes made before a throw are not undone.
\<close>

datatype 'a outcome = Returned 'a | Threw string 'a

fun state_of :: "'a outcome \<Rightarrow> 'a" where
  "state_of (Returned s) = s"
| "state_of (Threw msg s) = s"


text \<open>
  What an awaited call resolves to: \<^verbatim>\<open>undefined\<close> for a function without a
  \<^verbatim>\<open>return\<close> statement, a value otherwise.
\<close>

datatype 'a js_return = Undefined | Value 'a

section \<open>Sockets, events and the connection registry (src/unnamed/part_006)\<close>

text \<open>
  A socket is a handle. Its \<^verbatim>\<open>readyState\<close> (1 is OPEN) and whether
  \<^verbatim>\<open>send\<close> throws on it belong to the environment. The server time stamp that
  every outgoing envelope carries is left out of the events.
\<close>

type_synonym socket = nat

record sockets =
  readyState :: "socket \<Rightarrow> nat"
  send_throws :: "socket \<Rightarrow> bool"

record channel_row =
  cr_channel :: channel
  cr_members :: "userId list"

datatype server_event =
    USER_STATUS_CHANGED userId string
  | MESSAGE_RECEIVED message
  | UNREAD_COUNT_UPDATE channelId nat nat
  | CHANNELS_LOADED "channel_row list"
  | ERROR string

datatype effect =
    WsClose socket nat string
  | WsSend socket server_event
  | LogBroadcast nat nat

text \<open>\<^verbatim>\<open>memoryStore.connections\<close>: the Map from user id to the live socket.\<close>

type_synonym connections = "userId \<rightharpoonup> socket"

text \<open>
  \<^verbatim>\<open>updateUserPresence(userId, status)\<close>: skipped for a falsy user id; a failing
  update (database down, no such user) is caught and logged.
\<close>

definition updateUserPresence :: "time \<Rightarrow> db \<Rightarrow> userId \<Rightarrow> string \<Rightarrow> db" where
  "updateUserPresence now d userId status =
     (if userId = [] then d
      else if \<not> available d then d
      else (case users d userId of
              None \<Rightarrow> d
            | Some u \<Rightarrow> d\<lparr>users := (users d)(userId \<mapsto> u\<lparr>u_status := status, u_lastSeen := Some now\<rparr>)\<rparr>))"

text \<open>
  \<^verbatim>\<open>setupUserConnection(ws, userId, username)\<close> (part_006, lines 1098 to 1135; the
  second server has the same statements inline, lines 2967 to 2987). It yields the
  registry, the database and the effects in the order they happen. The final
  \<^verbatim>\<open>ws.send\<close> on the new socket throws when the environment says so; the registry
  has been updated by then.
\<close>

definition setupUserConnection ::
  "time \<Rightarrow> sockets \<Rightarrow> db \<Rightarrow> connections \<Rightarrow> socket \<Rightarrow> userId
     \<Rightarrow> (connections \<times> db \<times> effect list) outcome" where
  "setupUserConnection now env d conns ws userId =
     (let closes =
            (case conns userId of
               None \<Rightarrow> []
             | Some existingConnection \<Rightarrow>
                 if readyState env existingConnection = 1
                 then [WsClose existingConnection 1000 ''Replaced by new connection'']
                 else []);
          conns' = (conns(userId := None))(userId \<mapsto> ws);
          d' = updateUserPresence now d userId ''online''
      in if send_throws env ws
         then Threw ''send failed'' (conns', d', closes)
         else Returned (conns', d', closes @ [WsSend ws (USER_STATUS_CHANGED userId ''online'')]))"

text \<open>
  The \<^verbatim>\<open>close\<close> listener that the connection handler attaches to every
  authenticated socket (part_006, lines 1056 to 1076; in the second server the
  \<^verbatim>\<open>cleanup\<close> of lines 3658 to 3673, called from the listener of lines 3692 to
  3703). \<open>userId\<close> is the identity the closing socket authenticated as. The listener
  does not look at which socket the registry holds for that identity.
\<close>

definition onClose :: "time \<Rightarrow> db \<Rightarrow> connections \<Rightarrow> userId \<Rightarrow> connections \<times> db" where
  "onClose now d conns userId =
     (if userId = [] then (conns, d)
      else (conns(userId := None), updateUserPresence now d userId ''offline''))"

text \<open>
  A second socket authenticates as an identity, and then the \<^verbatim>\<open>close\<close> event of
  the socket it replaced arrives. \<^verbatim>\<open>close(1000, ...)\<close> only starts the closing
  handshake, so the event of the replaced socket comes after
  \<^verbatim>\<open>setupUserConnection\<close> has run; it is delivered only when
  \<^verbatim>\<open>setupUserConnection\<close> did close a socket.
\<close>

definition replaceThenClose ::
  "time \<Rightarrow> time \<Rightarrow> sockets \<Rightarrow> db \<Rightarrow> connections \<Rightarrow> socket \<Rightarrow> userId
     \<Rightarrow> connections \<times> db \<times> effect list" where
  "replaceThenClose now later env d conns ws userId =
     (case state_of (setupUserConnection now env d conns ws userId) of
        (conns', d', effs) \<Rightarrow>
          (case conns userId of
             None \<Rightarrow> (conns', d', effs)
           | Some existingConnection \<Rightarrow>
               if readyState env existingConnection = 1
               then (case onClose later d' conns' userId of
                       (conns'', d'') \<Rightarrow> (conns'', d'', effs))
               else (conns', d', effs)))"

section \<open>Broadcast fan-out (src/unnamed/part_001, lines 107 to 158)\<close>

text \<open>
  The loop of \<^verbatim>\<open>members.forEach\<close>: the sockets written to, in member order. A
  member equal to \<^verbatim>\<open>excludeUserId\<close> is skipped, so is one without an open socket,
  and a \<^verbatim>\<open>send\<close> that throws is caught and not counted.
\<close>

fun deliveries :: "sockets \<Rightarrow> connections \<Rightarrow> userId option \<Rightarrow> userId list \<Rightarrow> socket list" where
  "deliveries env conns excludeUserId [] = []"
| "deliveries env conns excludeUserId (userId # rest) =
     (if Some userId \<noteq> excludeUserId
      then (case conns userId of
              None \<Rightarrow> deliveries env conns excludeUserId rest
            | Some ws \<Rightarrow>
                if readyState env ws = 1
                then (if send_throws env ws
                      then deliveries env conns excludeUserId rest
                      else ws # deliveries env conns excludeUserId rest)
                else deliveries env conns excludeUserId rest)
      else deliveries env conns excludeUserId rest)"

record delivery_report =
  attempted :: nat
  delivered :: nat
  membership :: nat

text \<open>
  \<^verbatim>\<open>broadcastToChannel(channelId, event, payload, excludeUserId, connections)\<close>.
  The function has no \<^verbatim>\<open>return\<close> statement; \<^verbatim>\<open>sentCount\<close> and
  \<^verbatim>\<open>members.length\<close> go to the console only (the \<open>LogBroadcast\<close> effect). A
  failing membership query is caught and logged. The copies in part_006 (lines 333 and
  1689) take the registry from the enclosing scope and log less; the rest is the same.
\<close>

definition broadcastToChannel ::
  "sockets \<Rightarrow> db \<Rightarrow> connections \<Rightarrow> channelId \<Rightarrow> server_event \<Rightarrow> userId option
     \<Rightarrow> effect list \<times> delivery_report js_return" where
  "broadcastToChannel env d conns channelId event excludeUserId =
     (if \<not> available d then ([], Undefined)
      else (let members = membersOf d channelId;
                sent = deliveries env conns excludeUserId members
            in (map (\<lambda>ws. WsSend ws event) sent @ [LogBroadcast (length sent) (length members)],
                Undefined)))"

section \<open>The cache (src/unnamed/part_004, class RedisCache)\<close>

text \<open>
  One object serves every key family; the model is polymorphic in the value, and is used
  at channel lists and at counters. \<open>upstash\<close> is what the remote store holds (its own
  expiry of keys is the store's business and can only remove entries), \<open>upstash_up\<close>
  says whether calls to it succeed. The in-process fallback is the pair of Maps
  \<^verbatim>\<open>memoryCache\<close> and \<^verbatim>\<open>memoryCacheExpiry\<close>. Stored values are truthy (arrays,
  non-empty strings), so \<^verbatim>\<open>this.memoryCache.get(key) || null\<close> is the plain lookup.
\<close>

record 'v redis_cache =
  isConnected :: bool
  upstash_up :: bool
  upstash :: "string \<rightharpoonup> 'v"
  memoryCache :: "string \<rightharpoonup> 'v"
  memoryCacheExpiry :: "string \<rightharpoonup> time"

text \<open>
  The test \<^verbatim>\<open>expiry && Date.now() > expiry\<close> of \<^verbatim>\<open>getFromMemoryCache\<close>: no
  recorded expiry, or the number 0, is falsy.
\<close>

definition expired :: "time \<Rightarrow> 'v redis_cache \<Rightarrow> string \<Rightarrow> bool" where
  "expired now c key =
     (case memoryCacheExpiry c key of None \<Rightarrow> False | Some expiry \<Rightarrow> expiry \<noteq> 0 \<and> now > expiry)"

definition getFromMemoryCache ::
  "time \<Rightarrow> 'v redis_cache \<Rightarrow> string \<Rightarrow> 'v option \<times> 'v redis_cache" where
  "getFromMemoryCache now c key =
     (if expired now c key
      then (None, c\<lparr>memoryCache := (memoryCache c)(key := None),
                     memoryCacheExpiry := (memoryCacheExpiry c)(key := None)\<rparr>)
      else (memoryCache c key, c))"

definition redis_get ::
  "time \<Rightarrow> 'v redis_cache \<Rightarrow> string \<Rightarrow> 'v option \<times> 'v redis_cache" where
  "redis_get now c key =
     (if \<not> isConnected c then getFromMemoryCache now c key
      else if upstash_up c then (upstash c key, c)
      else getFromMemoryCache now c key)"

definition setInMemoryCache ::
  "time \<Rightarrow> 'v redis_cache \<Rightarrow> string \<Rightarrow> 'v \<Rightarrow> int \<Rightarrow> 'v redis_cache" where
  "setInMemoryCache now c key val ttlSeconds =
     c\<lparr>memoryCache := (memoryCache c)(key \<mapsto> val),
       memoryCacheExpiry := (memoryCacheExpiry c)(key \<mapsto> now + ttlSeconds * 1000)\<rparr>"

text \<open>
  \<^verbatim>\<open>set(key, value, ttlSeconds)\<close>. The bookkeeping for keys that contain
  \<^verbatim>\<open>:messages:\<close> is left out: no modelled caller writes such a key.
\<close>

definition redis_set ::
  "time \<Rightarrow> 'v redis_cache \<Rightarrow> string \<Rightarrow> 'v \<Rightarrow> int \<Rightarrow> 'v redis_cache" where
  "redis_set now c key val ttlSeconds =
     (if \<not> isConnected c then setInMemoryCache now c key val ttlSeconds
      else if upstash_up c then c\<lparr>upstash := (upstash c)(key \<mapsto> val)\<rparr>
      else setInMemoryCache now c key val ttlSeconds)"

text \<open>\<^verbatim>\<open>del(key)\<close>: one parameter, one key.\<close>

definition redis_del :: "'v redis_cache \<Rightarrow> string \<Rightarrow> bool \<times> 'v redis_cache" where
  "redis_del c key =
     (if \<not> isConnected c
      then (True, c\<lparr>memoryCache := (memoryCache c)(key := None),
                     memoryCacheExpiry := (memoryCacheExpiry c)(key := None)\<rparr>)
      else if upstash_up c then (True, c\<lparr>upstash := (upstash c)(key := None)\<rparr>)
      else (False, c))"

definition getUserChannelsKey :: "userId \<Rightarrow> string" where
  "getUserChannelsKey userId = ''user:'' @ userId @ '':channels''"

text \<open>
  \<^verbatim>\<open>RedisCache.clearAllChannelCaches()\<close>: without a connection, every key of
  \<^verbatim>\<open>memoryCache\<close> that starts with \<^verbatim>\<open>channels:\<close> is deleted from both Maps; with
  a connection nothing is deleted ("Cache will expire naturally with TTL"). The number of
  deleted keys it returns is left out: the modelled callers only log it.
\<close>

definition RedisCache_clearAllChannelCaches :: "'v redis_cache \<Rightarrow> 'v redis_cache" where
  "RedisCache_clearAllChannelCaches c =
     (if \<not> isConnected c
      then c\<lparr>memoryCache :=
               (\<lambda>key. if prefix ''channels:'' key then None else memoryCache c key),
             memoryCacheExpiry :=
               (\<lambda>key. if prefix ''channels:'' key \<and> memoryCache c key \<noteq> None then None
                       else memoryCacheExpiry c key)\<rparr>
      else c)"

section \<open>Cache validation and the channel fetch (src/unnamed/part_001)\<close>

text \<open>\<^verbatim>\<open>clearAllChannelCaches(reason)\<close>, lines 1099 to 1109.\<close>

definition clearAllChannelCaches :: "'v redis_cache \<Rightarrow> 'v redis_cache" where
  "clearAllChannelCaches c = RedisCache_clearAllChannelCaches c"

text \<open>
  The membership query of the source of record: the channels the user is a member of, and
  the public text groups. The rows come in the order of the table (the fetch orders them by
  \<^verbatim>\<open>updatedAt\<close>; no property below depends on the order).
\<close>

definition visibleChannels :: "db \<Rightarrow> userId \<Rightarrow> channel list" where
  "visibleChannels d userId =
     filter (\<lambda>c. isMember d (c_id c) userId \<or> (c_type c = ''text-group'' \<and> \<not> c_isPrivate c))
       (channels d)"

definition fetchChannels :: "db \<Rightarrow> userId \<Rightarrow> channel_row list" where
  "fetchChannels d userId =
     map (\<lambda>c. \<lparr>cr_channel = c, cr_members = membersOf d (c_id c)\<rparr>) (visibleChannels d userId)"

definition row_id :: "channel_row \<Rightarrow> channelId" where
  "row_id r = c_id (cr_channel r)"

text \<open>The user's cached channels followed by the public ones not among them.\<close>

definition mergeChannels :: "channel_row list \<Rightarrow> channel_row list \<Rightarrow> channel_row list" where
  "mergeChannels cachedUserChannels cachedPublicChannels =
     cachedUserChannels @
     filter (\<lambda>c. row_id c \<notin> set (map row_id cachedUserChannels)) cachedPublicChannels"

text \<open>Lines 1140 to 1147: what the cache would return for the user.\<close>

definition cachedChannelsOf ::
  "channel_row list option \<Rightarrow> channel_row list option \<Rightarrow> channel_row list" where
  "cachedChannelsOf cachedUserChannels cachedPublicChannels =
     (case cachedUserChannels of
        None \<Rightarrow> []
      | Some u \<Rightarrow> (case cachedPublicChannels of None \<Rightarrow> u | Some p \<Rightarrow> mergeChannels u p))"

text \<open>The cached channel list of a user, as the two reads of the validation yield it.\<close>

definition cachedChannelsFor ::
  "time \<Rightarrow> channel_row list redis_cache \<Rightarrow> userId \<Rightarrow> channel_row list" where
  "cachedChannelsFor now cache userId =
     (let (cachedUserChannels, cache1) = redis_get now cache (getUserChannelsKey userId);
          (cachedPublicChannels, cache2) = redis_get now cache1 ''channels:public''
      in cachedChannelsOf cachedUserChannels cachedPublicChannels)"

text \<open>
  \<^verbatim>\<open>validateCacheVsDatabase(userId)\<close>, lines 1111 to 1176, at one reading of the
  clock. The database query comes first; when it throws, the \<^verbatim>\<open>catch\<close> returns
  \<^verbatim>\<open>false\<close> before the cache is read.
\<close>

definition validateCacheVsDatabase ::
  "time \<Rightarrow> db \<Rightarrow> channel_row list redis_cache \<Rightarrow> userId
     \<Rightarrow> bool \<times> channel_row list redis_cache" where
  "validateCacheVsDatabase now d cache userId =
     (if \<not> available d then (False, cache)
      else
        (let dbChannels = visibleChannels d userId;
             (cachedUserChannels, cache1) = redis_get now cache (getUserChannelsKey userId);
             (cachedPublicChannels, cache2) = redis_get now cache1 ''channels:public'';
             cachedChannels = cachedChannelsOf cachedUserChannels cachedPublicChannels;
             missingFromCache =
               filter (\<lambda>c. c_id c \<notin> set (map row_id cachedChannels)) dbChannels;
             extraInCache =
               filter (\<lambda>c. row_id c \<notin> set (map c_id dbChannels)) cachedChannels
         in if length missingFromCache > 0 \<or> length extraInCache > 0
            then (False, clearAllChannelCaches cache2)
            else (True, cache2)))"

text \<open>Lines 468 to 479: both caches are written, then the list is sent.\<close>

definition cacheAndSend ::
  "time \<Rightarrow> channel_row list redis_cache \<Rightarrow> socket \<Rightarrow> userId \<Rightarrow> channel_row list
     \<Rightarrow> channel_row list redis_cache \<times> effect list" where
  "cacheAndSend now cache ws userId chs =
     (let userChannels = filter (\<lambda>c. userId \<in> set (cr_members c)) chs;
          publicChannels =
            filter (\<lambda>c. c_type (cr_channel c) = ''text-group'' \<and> \<not> c_isPrivate (cr_channel c)) chs;
          cache1 = redis_set now cache (getUserChannelsKey userId) userChannels 120;
          cache2 = redis_set now cache1 ''channels:public'' publicChannels 120
      in (cache2, [WsSend ws (CHANNELS_LOADED chs)]))"

definition isGeneral :: "channel \<Rightarrow> bool" where
  "isGeneral c = (c_type c = ''text-group'' \<and> c_name c = ''General'')"

text \<open>
  Lines 328 to 479 of \<^verbatim>\<open>handleFetchChannels\<close>, the rebuild from the source of
  record: the channels are fetched; a user who sees no text group named General is added
  to the first such group, if there is one, and the channels are fetched again.
\<close>

definition fetchChannelsFromDb ::
  "time \<Rightarrow> db \<Rightarrow> channel_row list redis_cache \<Rightarrow> socket \<Rightarrow> userId
     \<Rightarrow> db \<times> channel_row list redis_cache \<times> effect list" where
  "fetchChannelsFromDb now d cache ws userId =
     (let chs = fetchChannels d userId
      in case find (\<lambda>c. isGeneral (cr_channel c)) chs of
           Some communityChannel \<Rightarrow>
             (let (cache', effs) = cacheAndSend now cache ws userId chs in (d, cache', effs))
         | None \<Rightarrow>
             (case find isGeneral (channels d) of
                None \<Rightarrow>
                  (let (cache', effs) = cacheAndSend now cache ws userId chs in (d, cache', effs))
              | Some generalChannel \<Rightarrow>
                  (let d' = d\<lparr>channelMembers :=
                                channelMembers d @ [(c_id generalChannel, userId)]\<rparr>;
                       updatedChannels = fetchChannels d' userId;
                       (cache', effs) = cacheAndSend now cache ws userId updatedChannels
                   in (d', cache', effs))))"

text \<open>
  \<^verbatim>\<open>handleFetchChannels(userId, payload, ws, connections)\<close>, lines 301 to 488, at
  one reading of the clock, with sends to the requesting socket succeeding. The result of
  the validation is not looked at (line 306). A database that does not answer ends in
  the \<^verbatim>\<open>catch\<close>, which sends the error event.
\<close>

definition handleFetchChannels ::
  "time \<Rightarrow> db \<Rightarrow> channel_row list redis_cache \<Rightarrow> socket \<Rightarrow> userId
     \<Rightarrow> db \<times> channel_row list redis_cache \<times> effect list" where
  "handleFetchChannels now d cache ws userId =
     (let (isValid, cache1) = validateCacheVsDatabase now d cache userId;
          (cachedUserChannels, cache2) = redis_get now cache1 (getUserChannelsKey userId);
          (cachedPublicChannels, cache3) = redis_get now cache2 ''channels:public''
      in if cachedUserChannels \<noteq> None \<and> cachedPublicChannels \<noteq> None
         then (d, cache3,
               [WsSend ws (CHANNELS_LOADED
                  (mergeChannels (the cachedUserChannels) (the cachedPublicChannels)))])
         else if \<not> available d
         then (d, cache3, [WsSend ws (ERROR ''Failed to fetch channels'')])
         else fetchChannelsFromDb now d cache3 ws userId)"

section \<open>Unread counts (src/lib/notificationService.js)\<close>

text \<open>
  \<^verbatim>\<open>findFirst\<close> with \<^verbatim>\<open>orderBy: {readAt: 'desc'}\<close>: the first row of the
  descending order, if there is a row.
\<close>

definition findFirst_desc :: "time list \<Rightarrow> time option" where
  "findFirst_desc ts = (case rev (sort ts) of [] \<Rightarrow> None | t # rest \<Rightarrow> Some t)"

text \<open>
  The read receipts of a user on messages of a channel (the relation filter
  \<^verbatim>\<open>message: {channelId}\<close>).
\<close>

definition receiptsIn :: "db \<Rightarrow> userId \<Rightarrow> channelId \<Rightarrow> readReceipt list" where
  "receiptsIn d userId channelId =
     filter (\<lambda>r. r_userId r = userId \<and>
                 list_ex (\<lambda>m. m_id m = r_messageId r \<and> m_channelId m = channelId) (messages d))
       (readReceipts d)"

text \<open>
  \<^verbatim>\<open>getLastReadTime(userId, channelId)\<close>, lines 209 to 242. The epoch is time 0; a
  database that does not answer ends in the \<^verbatim>\<open>catch\<close>, which returns the epoch.
\<close>

definition getLastReadTime :: "db \<Rightarrow> userId \<Rightarrow> channelId \<Rightarrow> time" where
  "getLastReadTime d userId channelId =
     (if \<not> available d then 0
      else (case findFirst_desc (map r_readAt (receiptsIn d userId channelId)) of
              Some readAt \<Rightarrow> readAt
            | None \<Rightarrow>
                (case users d userId of
                   None \<Rightarrow> 0
                 | Some u \<Rightarrow> (case u_lastSeen u of None \<Rightarrow> 0 | Some lastSeen \<Rightarrow> lastSeen))))"

text \<open>\<^verbatim>\<open>calculateChannelUnreadCount(userId, channelId)\<close>, lines 114 to 145.\<close>

definition calculateChannelUnreadCount :: "db \<Rightarrow> userId \<Rightarrow> channelId \<Rightarrow> nat" where
  "calculateChannelUnreadCount d userId channelId =
     (if \<not> available d then 0
      else if \<not> isMember d channelId userId then 0
      else (let lastReadTime = getLastReadTime d userId channelId
            in length (filter (\<lambda>m. m_channelId m = channelId \<and> m_deletedAt m = None \<and>
                                   m_authorId m \<noteq> userId \<and> m_sentAt m > lastReadTime)
                         (messages d))))"

text \<open>\<^verbatim>\<open>calculateTotalUnreadCount(userId)\<close>, lines 152 to 173.\<close>

definition calculateTotalUnreadCount :: "db \<Rightarrow> userId \<Rightarrow> nat" where
  "calculateTotalUnreadCount d userId =
     (if \<not> available d then 0
      else sum_list (map (\<lambda>row. calculateChannelUnreadCount d userId (fst row))
                       (filter (\<lambda>row. snd row = userId) (channelMembers d))))"

text \<open>
  The keys of the cached counters. The counters are stored as decimal strings
  (\<^verbatim>\<open>count.toString()\<close>) and read back with \<^verbatim>\<open>parseInt\<close>; on the natural
  numbers the two cancel, and the cache holds the number.
\<close>

definition totalKey :: "userId \<Rightarrow> string" where
  "totalKey userId = ''notification:count:total:'' @ userId"

definition allKey :: "userId \<Rightarrow> string" where
  "allKey userId = ''notification:count:all:'' @ userId"

definition channelKey :: "userId \<Rightarrow> channelId \<Rightarrow> string" where
  "channelKey userId channelId = ''notification:count:channel:'' @ userId @ '':'' @ channelId"

text \<open>\<^verbatim>\<open>getChannelUnreadCount\<close> (lines 29 to 50): the cache first, 300 seconds.\<close>

definition getChannelUnreadCount ::
  "time \<Rightarrow> db \<Rightarrow> nat redis_cache \<Rightarrow> userId \<Rightarrow> channelId \<Rightarrow> nat \<times> nat redis_cache" where
  "getChannelUnreadCount now d cache userId channelId =
     (let cacheKey = channelKey userId channelId;
          (cachedCount, cache1) = redis_get now cache cacheKey
      in case cachedCount of
           Some n \<Rightarrow> (n, cache1)
         | None \<Rightarrow>
             (let count = calculateChannelUnreadCount d userId channelId
              in (count, redis_set now cache1 cacheKey count 300)))"

text \<open>\<^verbatim>\<open>getTotalUnreadCount\<close> (lines 57 to 78).\<close>

definition getTotalUnreadCount ::
  "time \<Rightarrow> db \<Rightarrow> nat redis_cache \<Rightarrow> userId \<Rightarrow> nat \<times> nat redis_cache" where
  "getTotalUnreadCount now d cache userId =
     (let cacheKey = totalKey userId;
          (cachedCount, cache1) = redis_get now cache cacheKey
      in case cachedCount of
           Some n \<Rightarrow> (n, cache1)
         | None \<Rightarrow>
             (let count = calculateTotalUnreadCount d userId
              in (count, redis_set now cache1 cacheKey count 300)))"

text \<open>
  \<^verbatim>\<open>invalidateCountCaches(userId, channelId)\<close>, lines 249 to 272. With a channel id
  the list \<^verbatim>\<open>patterns\<close> holds three keys, and \<^verbatim>\<open>this.redis.del(...patterns)\<close>
  spreads them over the one parameter of \<^verbatim>\<open>del(key)\<close>: the first key is deleted, the
  other arguments are dropped. Without a channel id the call of \<^verbatim>\<open>this.redis.keys\<close>,
  which RedisCache does not have, throws; the \<^verbatim>\<open>catch\<close> logs it and nothing is
  deleted.
\<close>

definition invalidateCountCaches ::
  "nat redis_cache \<Rightarrow> userId \<Rightarrow> channelId option \<Rightarrow> nat redis_cache" where
  "invalidateCountCaches cache userId channelId =
     (if falsy channelId then cache
      else (let patterns = [totalKey userId, allKey userId, channelKey userId (the channelId)]
            in case patterns of
                 [] \<Rightarrow> cache
               | key # dropped \<Rightarrow> snd (redis_del cache key)))"

text \<open>
  The second loop of \<^verbatim>\<open>handleNewMessage\<close> (lines 298 to 324): for every member with
  an open socket the two counts are read (from the cache when it holds them) and pushed;
  a send that throws is caught.
\<close>

fun pushCounts ::
  "time \<Rightarrow> sockets \<Rightarrow> db \<Rightarrow> connections \<Rightarrow> channelId \<Rightarrow> nat redis_cache \<Rightarrow> userId list
     \<Rightarrow> nat redis_cache \<times> effect list" where
  "pushCounts now env d conns channelId cache [] = (cache, [])"
| "pushCounts now env d conns channelId cache (userId # rest) =
     (case conns userId of
        None \<Rightarrow> pushCounts now env d conns channelId cache rest
      | Some ws \<Rightarrow>
          if readyState env ws = 1
          then (let (channelCount, cache1) = getChannelUnreadCount now d cache userId channelId;
                    (totalCount, cache2) = getTotalUnreadCount now d cache1 userId;
                    sent = (if send_throws env ws then []
                            else [WsSend ws (UNREAD_COUNT_UPDATE channelId channelCount totalCount)]);
                    (cache3, effs) = pushCounts now env d conns channelId cache2 rest
                in (cache3, sent @ effs))
          else pushCounts now env d conns channelId cache rest)"

text \<open>The members of the channel of a message, the author left out (lines 284 to 290).\<close>

definition otherMembers :: "db \<Rightarrow> channelId \<Rightarrow> userId \<Rightarrow> userId list" where
  "otherMembers d channelId authorId = filter (\<lambda>u. u \<noteq> authorId) (membersOf d channelId)"

text \<open>The first loop of \<^verbatim>\<open>handleNewMessage\<close> (lines 293 to 295).\<close>

definition invalidateMembers :: "nat redis_cache \<Rightarrow> channelId \<Rightarrow> userId list \<Rightarrow> nat redis_cache" where
  "invalidateMembers cache channelId members =
     foldl (\<lambda>c userId. invalidateCountCaches c userId (Some channelId)) cache members"

text \<open>\<^verbatim>\<open>handleNewMessage(message, connections)\<close>, lines 279 to 328.\<close>

definition handleNewMessage ::
  "time \<Rightarrow> sockets \<Rightarrow> db \<Rightarrow> nat redis_cache \<Rightarrow> connections \<Rightarrow> message
     \<Rightarrow> nat redis_cache \<times> effect list" where
  "handleNewMessage now env d cache conns msg =
     (if \<not> available d then (cache, [])
      else (let members = otherMembers d (m_channelId msg) (m_authorId msg);
                cache1 = invalidateMembers cache (m_channelId msg) members
            in pushCounts now env d conns (m_channelId msg) cache1 members))"

text \<open>\<^verbatim>\<open>handleMessageRead(userId, channelId, connections)\<close>, lines 336 to 369.\<close>

definition handleMessageRead ::
  "time \<Rightarrow> sockets \<Rightarrow> db \<Rightarrow> nat redis_cache \<Rightarrow> connections \<Rightarrow> userId \<Rightarrow> channelId
     \<Rightarrow> nat redis_cache \<times> effect list" where
  "handleMessageRead now env d cache conns userId channelId =
     (let cache1 = invalidateCountCaches cache userId (Some channelId);
          (channelCount, cache2) = getChannelUnreadCount now d cache1 userId channelId;
          (totalCount, cache3) = getTotalUnreadCount now d cache2 userId
      in (cache3,
          (case conns userId of
             None \<Rightarrow> []
           | Some ws \<Rightarrow>
               if readyState env ws = 1 \<and> \<not> send_throws env ws
               then [WsSend ws (UNREAD_COUNT_UPDATE channelId channelCount totalCount)]
               else [])))"

section \<open>Message handlers (src/unnamed/part_001)\<close>

text \<open>
  An attachment of a \<^verbatim>\<open>SEND_MESSAGE\<close> payload, with the two properties
  \<^verbatim>\<open>determineMessageType\<close> reads, each possibly absent. The field
  \<^verbatim>\<open>attachments\<close> itself may be missing (the default \<^verbatim>\<open>[]\<close> applies),
  \<^verbatim>\<open>null\<close>, something that is not an array, or an array; an element of the array
  that is \<^verbatim>\<open>null\<close> or \<^verbatim>\<open>undefined\<close> is \<open>None\<close>.
\<close>

record attachment =
  a_type :: "string option"
  a_filename :: "string option"

datatype attachments_field =
    AttachmentsMissing
  | AttachmentsNull
  | AttachmentsNotArray
  | AttachmentsArray "attachment option list"

text \<open>
  \<^verbatim>\<open>Array.prototype.some\<close> with a callback that reads a property of the element:
  the scan stops at the first element the callback accepts, and reading a property of
  \<^verbatim>\<open>null\<close> or \<^verbatim>\<open>undefined\<close> throws a TypeError.
\<close>

fun js_some :: "(attachment \<Rightarrow> bool) \<Rightarrow> attachment option list \<Rightarrow> string + bool" where
  "js_some p [] = Inr False"
| "js_some p (None # rest) = Inl ''TypeError''"
| "js_some p (Some a # rest) = (if p a then Inr True else js_some p rest)"

text \<open>
  The tests \<^verbatim>\<open>/\.(jpg|...)$/i.test(attachment.filename)\<close>: the file name ends with a
  dot and one of the extensions, letters compared without regard to case.
\<close>

definition lowerChar :: "char \<Rightarrow> char" where
  "lowerChar c =
     (case map_of (zip ''ABCDEFGHIJKLMNOPQRSTUVWXYZ'' ''abcdefghijklmnopqrstuvwxyz'') c of
        None \<Rightarrow> c
      | Some l \<Rightarrow> l)"

definition hasExtension :: "string list \<Rightarrow> string option \<Rightarrow> bool" where
  "hasExtension extensions filename =
     (case filename of
        None \<Rightarrow> False
      | Some f \<Rightarrow>
          f \<noteq> [] \<and> list_ex (\<lambda>e. suffix (CHR ''.'' # e) (map lowerChar f)) extensions)"

text \<open>
  \<^verbatim>\<open>determineMessageType(content, attachments)\<close> of part_001, lines 77 to 105, on an
  array: 3 for a GIF, 2 for an image, 5 for a video, 4 for audio, 1 for text.
\<close>

definition determineMessageType :: "attachment option list \<Rightarrow> string + nat" where
  "determineMessageType attachments =
     (case js_some (\<lambda>a. a_type a = Some ''gif'') attachments of
        Inl e \<Rightarrow> Inl e
      | Inr hasGifAttachment \<Rightarrow>
          if hasGifAttachment then Inr 3
          else (case js_some (\<lambda>a. a_type a = Some ''image'' \<or>
                     hasExtension [''jpg'', ''jpeg'', ''png'', ''gif'', ''webp'', ''svg''] (a_filename a))
                     attachments of
                  Inl e \<Rightarrow> Inl e
                | Inr hasImageAttachment \<Rightarrow>
                    if hasImageAttachment then Inr 2
                    else (case js_some (\<lambda>a. a_type a = Some ''video'' \<or>
                               hasExtension [''mp4'', ''avi'', ''mov'', ''wmv'', ''flv'', ''webm'']
                                 (a_filename a)) attachments of
                            Inl e \<Rightarrow> Inl e
                          | Inr hasVideoAttachment \<Rightarrow>
                              if hasVideoAttachment then Inr 5
                              else (case js_some (\<lambda>a. a_type a = Some ''audio'' \<or>
                                         hasExtension [''mp3'', ''wav'', ''ogg'', ''m4a'', ''aac'']
                                           (a_filename a)) attachments of
                                      Inl e \<Rightarrow> Inl e
                                    | Inr hasAudioAttachment \<Rightarrow>
                                        if hasAudioAttachment then Inr 4 else Inr 1))))"

text \<open>
  The \<^verbatim>\<open>SEND_MESSAGE\<close> payload: the id of the channel, the content (absent, or not
  a string, is \<open>None\<close>), the attachments and the id of the message replied to. The
  channel id is taken to be a string; without one the first query of the handler is
  refused by Prisma, before anything is written.
\<close>

record send_payload =
  sp_channelId :: channelId
  sp_content :: "string option"
  sp_attachments :: attachments_field
  sp_repliedToMessageId :: "messageId option"

text \<open>
  The foreign keys of the two creates: a member row needs its channel and its user, a
  message its channel, its author and, when it is a reply, the message replied to.
\<close>

definition memberCreatable :: "db \<Rightarrow> channelId \<Rightarrow> userId \<Rightarrow> bool" where
  "memberCreatable d channelId userId =
     (channelId \<in> set (map c_id (channels d)) \<and> users d userId \<noteq> None)"

definition messageCreatable :: "db \<Rightarrow> channelId \<Rightarrow> userId \<Rightarrow> messageId option \<Rightarrow> bool" where
  "messageCreatable d channelId userId repliedToMessageId =
     (channelId \<in> set (map c_id (channels d)) \<and> users d userId \<noteq> None \<and>
      (case repliedToMessageId of
         None \<Rightarrow> True
       | Some r \<Rightarrow> r \<in> set (map m_id (messages d))))"

text \<open>
  \<^verbatim>\<open>handleSendMessage(userId, payload, connections)\<close>, lines 180 to 245; \<open>None\<close> is
  the missing payload, which fails the destructuring of line 182. A user who is not a
  member is made one (lines 190 to 194) before anything else is looked at. Then, each
  after the membership has been written: \<^verbatim>\<open>determineMessageType\<close> throws on
  attachments that are \<^verbatim>\<open>null\<close>, not an array, or hold a \<^verbatim>\<open>null\<close> before any
  GIF (line 196); the log of lines 197 to 201 throws on a content without
  \<^verbatim>\<open>substring\<close> and on any \<^verbatim>\<open>null\<close> attachment; the create of the message
  fails on a dangling reference. The computed type is a column that is not modelled.
  \<open>newId\<close> is the id the database gives the message; its \<^verbatim>\<open>sentAt\<close> is the time
  of the call. Every throw is caught and thrown again (lines 241 to 244).
\<close>

definition handleSendMessage ::
  "time \<Rightarrow> sockets \<Rightarrow> db \<Rightarrow> nat redis_cache \<Rightarrow> connections \<Rightarrow> userId \<Rightarrow> send_payload option
     \<Rightarrow> messageId \<Rightarrow> (db \<times> nat redis_cache \<times> effect list) outcome" where
  "handleSendMessage now env d cache conns userId payload newId =
     (case payload of
        None \<Rightarrow> Threw ''TypeError'' (d, cache, [])
      | Some pl \<Rightarrow>
          if \<not> available d then Threw ''database unavailable'' (d, cache, [])
          else if \<not> isMember d (sp_channelId pl) userId \<and>
                  \<not> memberCreatable d (sp_channelId pl) userId
          then Threw ''Foreign key constraint failed'' (d, cache, [])
          else
            (let channelId = sp_channelId pl;
                 d1 = (if isMember d channelId userId then d
                       else d\<lparr>channelMembers := channelMembers d @ [(channelId, userId)]\<rparr>)
             in case (case sp_attachments pl of
                        AttachmentsMissing \<Rightarrow> Some []
                      | AttachmentsNull \<Rightarrow> None
                      | AttachmentsNotArray \<Rightarrow> None
                      | AttachmentsArray xs \<Rightarrow> Some xs) of
                  None \<Rightarrow> Threw ''TypeError'' (d1, cache, [])
                | Some attachments \<Rightarrow>
                    (case determineMessageType attachments of
                       Inl e \<Rightarrow> Threw e (d1, cache, [])
                     | Inr messageType \<Rightarrow>
                         (case sp_content pl of
                            None \<Rightarrow> Threw ''TypeError'' (d1, cache, [])
                          | Some content \<Rightarrow>
                              if list_ex (\<lambda>a. a = None) attachments
                              then Threw ''TypeError'' (d1, cache, [])
                              else if \<not> messageCreatable d1 channelId userId
                                          (sp_repliedToMessageId pl)
                              then Threw ''Foreign key constraint failed'' (d1, cache, [])
                              else
                                (let msg = \<lparr>m_id = newId, m_channelId = channelId,
                                             m_authorId = userId, m_content = content,
                                             m_sentAt = now, m_deletedAt = None\<rparr>;
                                     d2 = d1\<lparr>messages := messages d1 @ [msg]\<rparr>;
                                     (sent, returned) =
                                        broadcastToChannel env d2 conns channelId
                                          (MESSAGE_RECEIVED msg) None;
                                     (cache', pushed) = handleNewMessage now env d2 cache conns msg
                                 in Returned (d2, cache', sent @ pushed))))))"

text \<open>
  \<^verbatim>\<open>prisma.readReceipt.upsert\<close> on the key (messageId, userId): the row is updated
  when it exists and created otherwise.
\<close>

definition upsertReadReceipt :: "db \<Rightarrow> messageId \<Rightarrow> userId \<Rightarrow> time \<Rightarrow> db" where
  "upsertReadReceipt d messageId userId now =
     (if list_ex (\<lambda>r. r_messageId r = messageId \<and> r_userId r = userId) (readReceipts d)
      then d\<lparr>readReceipts :=
               map (\<lambda>r. if r_messageId r = messageId \<and> r_userId r = userId
                         then r\<lparr>r_readAt := now\<rparr> else r) (readReceipts d)\<rparr>
      else d\<lparr>readReceipts := readReceipts d @
               [\<lparr>r_messageId = messageId, r_userId = userId, r_readAt = now\<rparr>]\<rparr>)"

text \<open>
  \<^verbatim>\<open>handleMarkAsRead(userId, payload)\<close> of part_001, lines 605 to 674. The module has
  no binding for \<^verbatim>\<open>connections\<close>, so the call of line 660 throws a ReferenceError once
  the receipt is written; the two early returns come before it.
\<close>

definition handleMarkAsRead ::
  "time \<Rightarrow> db \<Rightarrow> userId \<Rightarrow> messageId \<Rightarrow> (db \<times> effect list) outcome" where
  "handleMarkAsRead now d userId messageId =
     (if \<not> available d then Threw ''database unavailable'' (d, [])
      else (case find (\<lambda>m. m_id m = messageId) (messages d) of
              None \<Rightarrow> Returned (d, [])
            | Some msg \<Rightarrow>
                if \<not> isMember d (m_channelId msg) userId then Returned (d, [])
                else Threw ''connections is not defined''
                       (upsertReadReceipt d messageId userId now, [])))"

text \<open>
  The copy of \<^verbatim>\<open>handleMarkAsRead\<close> the server dispatches to (part_006, lines 713 to
  782), where \<^verbatim>\<open>connections\<close> is the registry: after the receipt the counters of the
  reader are invalidated, recomputed and pushed.
\<close>

definition handleMarkAsRead_server ::
  "time \<Rightarrow> sockets \<Rightarrow> db \<Rightarrow> nat redis_cache \<Rightarrow> connections \<Rightarrow> userId \<Rightarrow> messageId
     \<Rightarrow> (db \<times> nat redis_cache \<times> effect list) outcome" where
  "handleMarkAsRead_server now env d cache conns userId messageId =
     (if \<not> available d then Threw ''database unavailable'' (d, cache, [])
      else (case find (\<lambda>m. m_id m = messageId) (messages d) of
              None \<Rightarrow> Returned (d, cache, [])
            | Some msg \<Rightarrow>
                if \<not> isMember d (m_channelId msg) userId then Returned (d, cache, [])
                else (let d' = upsertReadReceipt d messageId userId now;
                          (cache', effs) =
                             handleMessageRead now env d' cache conns userId (m_channelId msg)
                      in Returned (d', cache', effs))))"

text \<open>
  The dispatcher's case for \<^verbatim>\<open>MARK_AS_READ\<close> (part_006, lines 1229 to 1231) inside
  its \<^verbatim>\<open>try\<close>: a handler that throws makes the \<^verbatim>\<open>catch\<close> (lines 1348 to
  1353) send the error event to the requesting socket; a handler that returns sends
  nothing of its own.
\<close>

definition dispatchMarkAsRead ::
  "time \<Rightarrow> sockets \<Rightarrow> db \<Rightarrow> nat redis_cache \<Rightarrow> connections \<Rightarrow> socket \<Rightarrow> userId \<Rightarrow> messageId
     \<Rightarrow> db \<times> nat redis_cache \<times> effect list" where
  "dispatchMarkAsRead now env d cache conns ws userId messageId =
     (case handleMarkAsRead_server now env d cache conns userId messageId of
        Returned (d', cache', effs) \<Rightarrow> (d', cache', effs)
      | Threw msg (d', cache', effs) \<Rightarrow>
          (d', cache', effs @ [WsSend ws (ERROR ''Message processing failed'')]))"

section \<open>The unread count in the words of the specification\<close>

text \<open>
  The last-read watermark: the most recent read-receipt time of the identity in the
  conversation, the identity's last-seen time if there is no receipt, the epoch if there
  is neither.
\<close>

definition watermark_spec :: "db \<Rightarrow> userId \<Rightarrow> channelId \<Rightarrow> time" where
  "watermark_spec d userId channelId =
     (let acks = {r_readAt r | r. r \<in> set (readReceipts d) \<and> r_userId r = userId \<and>
                    (\<exists>m \<in> set (messages d). m_id m = r_messageId r \<and> m_channelId m = channelId)}
      in if acks \<noteq> {} then Max acks
         else (case users d userId of
                 None \<Rightarrow> 0
               | Some u \<Rightarrow> (case u_lastSeen u of None \<Rightarrow> 0 | Some lastSeen \<Rightarrow> lastSeen)))"

text \<open>
  The unread count: the messages of the conversation that are not soft-deleted, were not
  written by the identity and were sent strictly after the watermark.
\<close>

definition unread_spec :: "db \<Rightarrow> userId \<Rightarrow> channelId \<Rightarrow> nat" where
  "unread_spec d userId channelId =
     length (filter (\<lambda>m. m_channelId m = channelId \<and> m_deletedAt m = None \<and>
                          m_authorId m \<noteq> userId \<and> watermark_spec d userId channelId < m_sentAt m)
               (messages d))"

text \<open>Fixtures: three users, \<open>u3\<close> offline; one public channel and one private one.\<close>

definition example_env :: sockets where
  "example_env = \<lparr>readyState = (\<lambda>ws. if ws = 9 then 3 else 1), send_throws = (\<lambda>ws. False)\<rparr>"

definition example_conns :: connections where
  "example_conns = [''u1'' \<mapsto> 1, ''u2'' \<mapsto> 2]"

definition example_db :: db where
  "example_db =
     \<lparr>available = True,
      channels = [\<lparr>c_id = ''c1'', c_name = ''General'', c_type = ''text-group'', c_isPrivate = False\<rparr>,
                  \<lparr>c_id = ''c2'', c_name = ''Team'', c_type = ''text-group'', c_isPrivate = True\<rparr>],
      channelMembers = [(''c1'', ''u1''), (''c1'', ''u2''), (''c1'', ''u3''), (''c2'', ''u1'')],
      messages = [\<lparr>m_id = ''m1'', m_channelId = ''c2'', m_authorId = ''u1'', m_content = ''hello'',
                    m_sentAt = 5000, m_deletedAt = None\<rparr>],
      readReceipts = [],
      users = [''u1'' \<mapsto> \<lparr>u_status = ''online'', u_lastSeen = Some 100\<rparr>,
               ''u2'' \<mapsto> \<lparr>u_status = ''online'', u_lastSeen = None\<rparr>,
               ''u3'' \<mapsto> \<lparr>u_status = ''offline'', u_lastSeen = Some 200\<rparr>]\<rparr>"


text \<open>
  A connected cache whose entry for \<open>u2\<close> still lists the private channel \<open>c2\<close>, which
  \<open>u2\<close> is no longer a member of in \<open>example_db\<close>.
\<close>

definition row_c1 :: channel_row where
  "row_c1 =
     \<lparr>cr_channel = \<lparr>c_id = ''c1'', c_name = ''General'', c_type = ''text-group'', c_isPrivate = False\<rparr>,
      cr_members = [''u1'', ''u2'', ''u3'']\<rparr>"

definition row_c2 :: channel_row where
  "row_c2 =
     \<lparr>cr_channel = \<lparr>c_id = ''c2'', c_name = ''Team'', c_type = ''text-group'', c_isPrivate = True\<rparr>,
      cr_members = [''u1'', ''u2'']\<rparr>"

definition example_stale_cache :: "channel_row list redis_cache" where
  "example_stale_cache =
     \<lparr>isConnected = True, upstash_up = True,
      upstash = [''user:u2:channels'' \<mapsto> [row_c2, row_c1], ''channels:public'' \<mapsto> [row_c1]],
      memoryCache = Map.empty, memoryCacheExpiry = Map.empty\<rparr>"

text \<open>The same entries in the in-process fallback, and entries that agree with the database.\<close>

definition example_stale_memory :: "channel_row list redis_cache" where
  "example_stale_memory =
     \<lparr>isConnected = False, upstash_up = False, upstash = Map.empty,
      memoryCache = [''user:u2:channels'' \<mapsto> [row_c2, row_c1], ''channels:public'' \<mapsto> [row_c1]],
      memoryCacheExpiry = [''user:u2:channels'' \<mapsto> 120000, ''channels:public'' \<mapsto> 120000]\<rparr>"



text \<open>
  The counters of \<open>u2\<close> as cached before a new message arrives in \<open>c1\<close>: nothing
  unread, in total and in the channel.
\<close>

definition example_counts :: "nat redis_cache" where
  "example_counts =
     \<lparr>isConnected = False, upstash_up = False, upstash = Map.empty,
      memoryCache = [''notification:count:total:u2'' \<mapsto> 0,
                     ''notification:count:channel:u2:c1'' \<mapsto> 0],
      memoryCacheExpiry = [''notification:count:total:u2'' \<mapsto> 300000,
                           ''notification:count:channel:u2:c1'' \<mapsto> 300000]\<rparr>"

definition example_message :: message where
  "example_message =
     \<lparr>m_id = ''m2'', m_channelId = ''c1'', m_authorId = ''u1'', m_content = ''hi'',
      m_sentAt = 6000, m_deletedAt = None\<rparr>"


definition example_db_after :: db where
  "example_db_after = example_db\<lparr>messages := messages example_db @ [example_message]\<rparr>"



section \<open>The example database, row by row\<close>

lemma ex_db_simps:
  "available example_db"
  "messages example_db = [\<lparr>m_id = ''m1'', m_channelId = ''c2'', m_authorId = ''u1'',
       m_content = ''hello'', m_sentAt = 5000, m_deletedAt = None\<rparr>]"
  "readReceipts example_db = []"
  "channelMembers example_db = [(''c1'', ''u1''), (''c1'', ''u2''), (''c1'', ''u3''), (''c2'', ''u1'')]"
  "users example_db ''u2'' = Some \<lparr>u_status = ''online'', u_lastSeen = None\<rparr>"
  "users example_db ''u3'' = Some \<lparr>u_status = ''offline'', u_lastSeen = Some 200\<rparr>"
  by (simp_all add: example_db_def)

section \<open>The credential validator: single use of a nonce\<close>

lemma validate_keeps_recent:
  assumes "usedTokens n = Some ts" and "now \<le> ts + 5 * 60 * 1000"
  shows "snd (validateJWTToken verify now usedTokens token) n = Some ts"
  using assms
  by (auto simp: validateJWTToken_def prune_old_def split: sum.splits option.splits)

lemma failed_validate_unchanged:
  "validateJWTToken verify now usedTokens token = (JwtInvalid msg, used') \<Longrightarrow> used' = usedTokens"
  by (auto simp: validateJWTToken_def split: sum.splits option.splits if_splits)

text \<open>
  Only an accepted attempt prunes. A record survives any sequence of attempts in which
  every accepted one comes at most five minutes after the record was made; failed
  attempts may come at any time.
\<close>

lemma validateMany_keeps_accepted_early:
  assumes "usedTokens n = Some ts"
      and "\<forall>now \<in> set (acceptedTimes verify usedTokens attempts). now \<le> ts + 5 * 60 * 1000"
  shows "validateMany verify usedTokens attempts n = Some ts"
  using assms
proof (induction attempts arbitrary: usedTokens)
  case Nil
  then show ?case by simp
next
  case (Cons a attempts)
  obtain now token where a: "a = (now, token)" by (cases a)
  obtain r used' where v: "validateJWTToken verify now usedTokens token = (r, used')"
    by (cases "validateJWTToken verify now usedTokens token")
  show ?case
  proof (cases r)
    case (JwtInvalid msg)
    with v have "used' = usedTokens" by (simp add: failed_validate_unchanged)
    with Cons.prems Cons.IH [of usedTokens] a v JwtInvalid show ?thesis by simp
  next
    case (JwtValid w i e)
    with Cons.prems(2) a v have early: "now \<le> ts + 5 * 60 * 1000"
      and rest: "\<forall>t \<in> set (acceptedTimes verify used' attempts). t \<le> ts + 5 * 60 * 1000"
      by simp_all
    from Cons.prems(1) early have "snd (validateJWTToken verify now usedTokens token) n = Some ts"
      by (rule validate_keeps_recent)
    with v have "used' n = Some ts" by simp
    from Cons.IH [OF this rest] a v show ?thesis by simp
  qed
qed

lemma validate_records_nonce:
  assumes "validateJWTToken verify now usedTokens token = (JwtValid w i e, usedTokens')"
      and "verify now token = Inr decoded"
  shows "usedTokens' (d_nonce decoded) = Some now"
  using assms
  by (auto simp: validateJWTToken_def prune_old_def split: if_splits option.splits)

lemma consumed_nonce_rejected:
  assumes "usedTokens n = Some ts"
      and "verify now token = Inr decoded" and "d_nonce decoded = n"
  shows "\<exists>msg. validateJWTToken verify now usedTokens token = (JwtInvalid msg, usedTokens)"
  using assms
  by (auto simp: validateJWTToken_def split: sum.splits)

text \<open>
  The validator by itself, against its own record. Once \<^verbatim>\<open>validateJWTToken\<close> has
  accepted a token at time \<open>t0\<close>, and whatever attempts follow, as long as none is
  accepted later than five minutes after \<open>t0\<close> (so that no pruning drops the record),
  every attempt that presents a token with the same nonce is rejected, and the rejection
  leaves the record as it was.
\<close>

lemma nonce_single_use_in_validator:
  assumes first: "validateJWTToken verify t0 used0 token0 = (JwtValid w i e, used1)"
      and dec0: "verify t0 token0 = Inr decoded0"
      and early: "\<forall>now \<in> set (acceptedTimes verify used1 attempts). now \<le> t0 + 5 * 60 * 1000"
      and dec: "verify t token = Inr decoded"
      and same: "d_nonce decoded = d_nonce decoded0"
  shows "\<exists>msg. validateJWTToken verify t (validateMany verify used1 attempts) token
                 = (JwtInvalid msg, validateMany verify used1 attempts)"
proof -
  from first dec0 have "used1 (d_nonce decoded0) = Some t0"
    by (rule validate_records_nonce)
  then have "validateMany verify used1 attempts (d_nonce decoded0) = Some t0"
    using early by (rule validateMany_keeps_accepted_early)
  then show ?thesis using dec same by (rule consumed_nonce_rejected)
qed

text \<open>
  A run of it: the token is accepted at 1000; a malformed token and a replay follow, the
  replay after the horizon; the token is still rejected at 400001.
\<close>

lemma nonce_single_use_in_validator_example:
  "fst (validateJWTToken example_verify 1000 Map.empty ''tokenA'')
     = JwtValid (Some ''walletA'') (Some 1000) (Some 1300) \<and>
   (\<exists>msg. validateJWTToken example_verify 400001
             (validateMany example_verify
                (snd (validateJWTToken example_verify 1000 Map.empty ''tokenA''))
                [(2000, ''garbage''), (400000, ''tokenA'')]) ''tokenA''
           = (JwtInvalid msg,
              validateMany example_verify
                (snd (validateJWTToken example_verify 1000 Map.empty ''tokenA''))
                [(2000, ''garbage''), (400000, ''tokenA'')]))"
proof -
  have valid: "fst (validateJWTToken example_verify 1000 Map.empty ''tokenA'')
      = JwtValid (Some ''walletA'') (Some 1000) (Some 1300)"
    by (simp add: validateJWTToken_def example_verify_def example_decoded_def
        toISOString_throws_def)
  then have first: "validateJWTToken example_verify 1000 Map.empty ''tokenA''
      = (JwtValid (Some ''walletA'') (Some 1000) (Some 1300),
         snd (validateJWTToken example_verify 1000 Map.empty ''tokenA''))"
    by (simp add: prod_eq_iff)
  have dec0: "example_verify 1000 ''tokenA'' = Inr example_decoded"
    by (simp add: example_verify_def)
  have "acceptedTimes example_verify
          (snd (validateJWTToken example_verify 1000 Map.empty ''tokenA''))
          [(2000, ''garbage''), (400000, ''tokenA'')] = []"
    by (simp add: validateJWTToken_def example_verify_def example_decoded_def
        toISOString_throws_def prune_old_def)
  then have early: "\<forall>now \<in> set (acceptedTimes example_verify
          (snd (validateJWTToken example_verify 1000 Map.empty ''tokenA''))
          [(2000, ''garbage''), (400000, ''tokenA'')]). now \<le> 1000 + 5 * 60 * 1000"
    by simp
  have dec: "example_verify 400001 ''tokenA'' = Inr example_decoded"
    by (simp add: example_verify_def)
  from nonce_single_use_in_validator [OF first dec0 early dec refl] valid show ?thesis
    by (rule conjI [rotated])
qed

text \<open>
  The horizon is real: once another token is accepted more than five minutes after
  \<open>t0\<close>, the record is pruned and the first token is accepted again.
\<close>

lemma nonce_redeemable_after_prune:
  "fst (validateJWTToken example_verify 400000
          (validateMany example_verify
             (snd (validateJWTToken example_verify 1000 Map.empty ''tokenA''))
             [(301001, ''tokenB'')]) ''tokenA'')
     = JwtValid (Some ''walletA'') (Some 1000) (Some 1300)"
  by (simp add: validateJWTToken_def example_verify_def example_decoded_def
      example_decoded_B_def toISOString_throws_def prune_old_def)

text \<open>
  The main endpoint enforces single use against its own record: it accepts a token once
  and refuses it the second time.
\<close>

lemma main_endpoint_has_its_own_record:
  "fst (validateJWTToken example_verify 1000 Map.empty ''tokenA'')
     = JwtValid (Some ''walletA'') (Some 1000) (Some 1300) \<and>
   fst (mainEndpointCheck example_verify 2000 Map.empty (Some ''tokenA'')) = Inr example_decoded \<and>
   fst (mainEndpointCheck example_verify 3000
          (snd (mainEndpointCheck example_verify 2000 Map.empty (Some ''tokenA'')))
          (Some ''tokenA'')) = Inl ''Token already used''"
  by (simp add: validateJWTToken_def mainEndpointCheck_def example_verify_def
      example_decoded_def toISOString_throws_def falsy_def prune_old_def)

text \<open>
  Claim C1 (the code departs from it). The server keeps two records of consumed nonces,
  one in the validator behind \<^verbatim>\<open>/auth\<close> and one in \<^verbatim>\<open>global.usedTokens\<close>
  behind every other URL, and neither check reads the other's record. So a nonce is not
  rejected regardless of which connection presents it: whenever a login over
  \<^verbatim>\<open>/auth\<close> has been accepted, which records the nonce of its token in the
  validator, the same token presented afterwards in the URL of the main endpoint is
  accepted, provided only that the main endpoint's \<^verbatim>\<open>jwt.verify\<close> takes it and the
  main endpoint has not seen the nonce itself. No horizon is involved: this holds at any
  time \<open>t\<close>, also right after the login.
\<close>

theorem consumed_nonce_accepted_at_main_endpoint:
  assumes login: "presentToken verifyAuth verifyMain t0 recs (AuthLogin (Some p)) = (True, recs1)"
      and tok: "p_jwtToken p = Some token"
      and main: "verifyMain t token = Inr decoded"
      and dates: "\<not> toISOString_throws (d_iat decoded)" "\<not> toISOString_throws (d_exp decoded)"
      and fresh: "tr_global recs (d_nonce decoded) = None"
  shows "(\<exists>decoded0. verifyAuth t0 token = Inr decoded0 \<and>
            tr_validator recs1 (d_nonce decoded0) = Some t0) \<and>
         fst (presentToken verifyAuth verifyMain t recs1 (MainUrl (Some token))) = True"
proof -
  from login tok obtain w i e where
    v: "validateJWTToken verifyAuth t0 (tr_validator recs) token
          = (JwtValid w i e, tr_validator recs1)"
    and g: "tr_global recs1 = tr_global recs" and ne: "\<not> falsy (Some token)"
    by (auto simp: presentToken_def validateAuthPayload_def
        split: if_splits prod.splits jwt_result.splits auth_result.splits)
  from v obtain decoded0 where d0: "verifyAuth t0 token = Inr decoded0"
    by (auto simp: validateJWTToken_def split: sum.splits)
  from v d0 have "tr_validator recs1 (d_nonce decoded0) = Some t0"
    by (rule validate_records_nonce)
  moreover have "fst (presentToken verifyAuth verifyMain t recs1 (MainUrl (Some token))) = True"
    using main dates fresh g ne by (simp add: presentToken_def mainEndpointCheck_def)
  ultimately show ?thesis using d0 by blast
qed

text \<open>
  A run of it, both checks verifying with the same secret. The login with token A is
  accepted at 1000 and its nonce recorded by the validator; one second later a second
  login with the same token is refused, and a connection to the main endpoint with the
  same token in its URL is accepted.
\<close>

theorem consumed_nonce_accepted_at_main_endpoint_witness:
  "presentToken example_verify example_verify 1000
      \<lparr>tr_validator = Map.empty, tr_global = Map.empty\<rparr>
      (AuthLogin (Some \<lparr>p_walletAddress = Some ''walletA'', p_jwtToken = Some ''tokenA''\<rparr>))
     = (True, \<lparr>tr_validator = [Some ''nonce-1'' \<mapsto> 1000], tr_global = Map.empty\<rparr>) \<and>
   fst (presentToken example_verify example_verify 2000
          \<lparr>tr_validator = [Some ''nonce-1'' \<mapsto> 1000], tr_global = Map.empty\<rparr>
          (AuthLogin (Some \<lparr>p_walletAddress = Some ''walletA'', p_jwtToken = Some ''tokenA''\<rparr>)))
     = False \<and>
   fst (presentToken example_verify example_verify 2000
          \<lparr>tr_validator = [Some ''nonce-1'' \<mapsto> 1000], tr_global = Map.empty\<rparr>
          (MainUrl (Some ''tokenA''))) = True"
proof -
  have login: "presentToken example_verify example_verify 1000
      \<lparr>tr_validator = Map.empty, tr_global = Map.empty\<rparr>
      (AuthLogin (Some \<lparr>p_walletAddress = Some ''walletA'', p_jwtToken = Some ''tokenA''\<rparr>))
     = (True, \<lparr>tr_validator = [Some ''nonce-1'' \<mapsto> 1000], tr_global = Map.empty\<rparr>)"
    by (simp add: presentToken_def validateAuthPayload_def validateJWTToken_def example_verify_def
        example_decoded_def toISOString_throws_def falsy_def prune_old_def fun_eq_iff)
  have again: "fst (presentToken example_verify example_verify 2000
          \<lparr>tr_validator = [Some ''nonce-1'' \<mapsto> 1000], tr_global = Map.empty\<rparr>
          (AuthLogin (Some \<lparr>p_walletAddress = Some ''walletA'', p_jwtToken = Some ''tokenA''\<rparr>)))
     = False"
    by (simp add: presentToken_def validateAuthPayload_def validateJWTToken_def example_verify_def
        example_decoded_def toISOString_throws_def falsy_def)
  have main: "example_verify 2000 ''tokenA'' = Inr example_decoded"
    by (simp add: example_verify_def)
  have dates: "\<not> toISOString_throws (d_iat example_decoded)"
    "\<not> toISOString_throws (d_exp example_decoded)"
    by (simp_all add: example_decoded_def toISOString_throws_def)
  have fresh: "tr_global \<lparr>tr_validator = Map.empty, tr_global = Map.empty\<rparr>
      (d_nonce example_decoded) = None"
    by simp
  have tok: "p_jwtToken \<lparr>p_walletAddress = Some ''walletA'', p_jwtToken = Some ''tokenA''\<rparr>
      = Some ''tokenA''"
    by simp
  from consumed_nonce_accepted_at_main_endpoint [OF login tok main dates fresh] login again
  show ?thesis by simp
qed

text \<open>
  Claim C2, as amended. A call of \<^verbatim>\<open>validateJWTToken\<close> that fails leaves the
  consumed nonces unchanged, and so does a call of \<^verbatim>\<open>validateAuthPayload\<close> that
  fails for any reason but a wallet-address mismatch (missing fields, malformed token, bad
  signature, expiry, replay). The mismatch is checked after the token itself has been
  accepted: an attempt rejected for it has consumed the token's nonce.
\<close>

theorem failed_validation_keeps_nonces:
  "(validateJWTToken verify now usedTokens token = (JwtInvalid msg, used') \<longrightarrow>
      used' = usedTokens) \<and>
   (validateAuthPayload verify now usedTokens payload = (AuthInvalid msg2, used'') \<and>
      msg2 \<noteq> ''Wallet address mismatch'' \<longrightarrow> used'' = usedTokens) \<and>
   (validateAuthPayload verify now usedTokens payload
        = (AuthInvalid ''Wallet address mismatch'', used'') \<longrightarrow>
      (\<exists>p decoded. payload = Some p \<and> verify now (the (p_jwtToken p)) = Inr decoded \<and>
         d_walletAddress decoded \<noteq> p_walletAddress p \<and>
         usedTokens (d_nonce decoded) = None \<and> used'' (d_nonce decoded) = Some now))"
  by (auto simp: validateJWTToken_def validateAuthPayload_def prune_old_def
       split: sum.splits option.splits if_splits jwt_result.splits prod.splits)

theorem failed_validation_keeps_nonces_witness:
  "snd (validateJWTToken example_verify 1000 Map.empty ''garbage'') = Map.empty \<and>
   snd (validateAuthPayload example_verify 1000 Map.empty
          (Some \<lparr>p_walletAddress = Some ''walletA'', p_jwtToken = Some ''garbage''\<rparr>))
     = Map.empty \<and>
   (\<exists>p decoded.
      Some \<lparr>p_walletAddress = Some ''walletB'', p_jwtToken = Some ''tokenA''\<rparr> = Some p \<and>
      example_verify 1000 (the (p_jwtToken p)) = Inr decoded \<and>
      d_walletAddress decoded \<noteq> p_walletAddress p \<and>
      Map.empty (d_nonce decoded) = (None :: time option) \<and>
      snd (validateAuthPayload example_verify 1000 Map.empty
             (Some \<lparr>p_walletAddress = Some ''walletB'', p_jwtToken = Some ''tokenA''\<rparr>))
        (d_nonce decoded) = Some 1000)"
proof -
  have a: "validateJWTToken example_verify 1000 Map.empty ''garbage''
      = (JwtInvalid ''jwt malformed'',
         snd (validateJWTToken example_verify 1000 Map.empty ''garbage''))"
    by (simp add: validateJWTToken_def example_verify_def)
  have b: "validateAuthPayload example_verify 1000 Map.empty
        (Some \<lparr>p_walletAddress = Some ''walletA'', p_jwtToken = Some ''garbage''\<rparr>)
      = (AuthInvalid ''Invalid JWT token'',
         snd (validateAuthPayload example_verify 1000 Map.empty
           (Some \<lparr>p_walletAddress = Some ''walletA'', p_jwtToken = Some ''garbage''\<rparr>)))"
    by (simp add: validateAuthPayload_def validateJWTToken_def example_verify_def falsy_def)
  have c: "validateAuthPayload example_verify 1000 Map.empty
        (Some \<lparr>p_walletAddress = Some ''walletB'', p_jwtToken = Some ''tokenA''\<rparr>)
      = (AuthInvalid ''Wallet address mismatch'',
         snd (validateAuthPayload example_verify 1000 Map.empty
           (Some \<lparr>p_walletAddress = Some ''walletB'', p_jwtToken = Some ''tokenA''\<rparr>)))"
    by (simp add: validateAuthPayload_def validateJWTToken_def example_verify_def falsy_def
        example_decoded_def toISOString_throws_def)
  have ne: "''Invalid JWT token'' \<noteq> ''Wallet address mismatch''" by simp
  note t = failed_validation_keeps_nonces
    [of example_verify 1000 Map.empty "''garbage''" "''jwt malformed''"
        "snd (validateJWTToken example_verify 1000 Map.empty ''garbage'')"]
  from t a have 1: "snd (validateJWTToken example_verify 1000 Map.empty ''garbage'') = Map.empty"
    by blast
  from failed_validation_keeps_nonces
    [of example_verify 1000 Map.empty _ _ _
        "Some \<lparr>p_walletAddress = Some ''walletA'', p_jwtToken = Some ''garbage''\<rparr>"
        "''Invalid JWT token''"
        "snd (validateAuthPayload example_verify 1000 Map.empty
           (Some \<lparr>p_walletAddress = Some ''walletA'', p_jwtToken = Some ''garbage''\<rparr>))"]
    b ne
  have 2: "snd (validateAuthPayload example_verify 1000 Map.empty
          (Some \<lparr>p_walletAddress = Some ''walletA'', p_jwtToken = Some ''garbage''\<rparr>))
     = Map.empty"
    by blast
  from failed_validation_keeps_nonces
    [of example_verify 1000 Map.empty _ _ _
        "Some \<lparr>p_walletAddress = Some ''walletB'', p_jwtToken = Some ''tokenA''\<rparr>"
        _
        "snd (validateAuthPayload example_verify 1000 Map.empty
           (Some \<lparr>p_walletAddress = Some ''walletB'', p_jwtToken = Some ''tokenA''\<rparr>))"]
    c
  have 3: "\<exists>p decoded.
      Some \<lparr>p_walletAddress = Some ''walletB'', p_jwtToken = Some ''tokenA''\<rparr> = Some p \<and>
      example_verify 1000 (the (p_jwtToken p)) = Inr decoded \<and>
      d_walletAddress decoded \<noteq> p_walletAddress p \<and>
      Map.empty (d_nonce decoded) = (None :: time option) \<and>
      snd (validateAuthPayload example_verify 1000 Map.empty
             (Some \<lparr>p_walletAddress = Some ''walletB'', p_jwtToken = Some ''tokenA''\<rparr>))
        (d_nonce decoded) = Some 1000"
    by blast
  from 1 2 3 show ?thesis by blast
qed

text \<open>
  Claim C2 as stated fails. A login that presents a well-signed token under the wrong
  wallet address is rejected, yet the nonce is recorded: the owner's later login with the
  same token, which the fresh validator accepts, is now rejected.
\<close>

theorem wallet_mismatch_consumes_nonce:
  "fst (validateAuthPayload example_verify 1000 Map.empty
          (Some \<lparr>p_walletAddress = Some ''walletB'', p_jwtToken = Some ''tokenA''\<rparr>))
     = AuthInvalid ''Wallet address mismatch'' \<and>
   snd (validateAuthPayload example_verify 1000 Map.empty
          (Some \<lparr>p_walletAddress = Some ''walletB'', p_jwtToken = Some ''tokenA''\<rparr>))
     \<noteq> Map.empty \<and>
   fst (validateAuthPayload example_verify 2000
          (snd (validateAuthPayload example_verify 1000 Map.empty
             (Some \<lparr>p_walletAddress = Some ''walletB'', p_jwtToken = Some ''tokenA''\<rparr>)))
          (Some \<lparr>p_walletAddress = Some ''walletA'', p_jwtToken = Some ''tokenA''\<rparr>))
     = AuthInvalid ''Invalid JWT token'' \<and>
   fst (validateAuthPayload example_verify 2000 Map.empty
          (Some \<lparr>p_walletAddress = Some ''walletA'', p_jwtToken = Some ''tokenA''\<rparr>))
     = AuthValid ''walletA'' (JwtValid (Some ''walletA'') (Some 1000) (Some 1300))"
  by (simp add: validateAuthPayload_def validateJWTToken_def example_verify_def
      example_decoded_def toISOString_throws_def falsy_def prune_old_def fun_eq_iff)

section \<open>The connection registry\<close>

text \<open>
  \<^verbatim>\<open>setupUserConnection\<close> by itself: when it is done the registry holds exactly one
  socket for the identity, the new one, and every other identity keeps its entry. When
  the identity had a registered socket that was open, the first thing that happens is the
  close of that socket with code 1000 and reason "Replaced by new connection"; no other
  socket is closed.
\<close>

lemma setupUserConnection_registers_new:
  "case state_of (setupUserConnection now env d conns ws userId) of
     (conns', d', effs) \<Rightarrow>
       {c. conns' userId = Some c} = {ws} \<and>
       (\<forall>u. u \<noteq> userId \<longrightarrow> conns' u = conns u) \<and>
       (\<forall>old. conns userId = Some old \<and> readyState env old = 1 \<longrightarrow>
          effs \<noteq> [] \<and> hd effs = WsClose old 1000 ''Replaced by new connection'') \<and>
       (\<forall>c code reason. WsClose c code reason \<in> set effs \<longrightarrow>
          conns userId = Some c \<and> readyState env c = 1)"
  by (auto simp: setupUserConnection_def Let_def split: option.splits)

lemma setupUserConnection_registers_new_example:
  "case state_of (setupUserConnection 7000 example_env example_db example_conns 5 ''u1'') of
     (conns', d', effs) \<Rightarrow>
       {c. conns' ''u1'' = Some c} = {5} \<and>
       conns' ''u2'' = example_conns ''u2'' \<and>
       example_conns ''u1'' = Some 1 \<and> readyState example_env 1 = 1 \<and>
       effs \<noteq> [] \<and> hd effs = WsClose 1 1000 ''Replaced by new connection''"
  using setupUserConnection_registers_new
    [where now = 7000 and env = example_env and d = example_db and conns = example_conns
       and ws = 5 and userId = "''u1''"]
  by (auto simp: example_conns_def example_env_def split: prod.splits)

text \<open>
  Claim C3 (the code departs from it). A second connection authenticates as an identity
  whose registered socket is open. The existing socket is closed with code 1000 and
  reason "Replaced by new connection", and the new socket is registered; so far the
  claim. Then the \<^verbatim>\<open>close\<close> event of the replaced socket arrives, and its listener
  deletes the registry entry of the identity without looking at which socket is
  registered: the new connection does not remain the registered one, the identity has no
  registered connection at all while its new socket is open, and the user is marked
  offline. The entries of the other identities are untouched.
\<close>

theorem replaced_socket_close_unregisters_new:
  assumes "conns userId = Some old" and "readyState env old = 1" and "userId \<noteq> []"
  shows "case replaceThenClose now later env d conns ws userId of
           (conns'', d'', effs) \<Rightarrow>
             effs \<noteq> [] \<and> hd effs = WsClose old 1000 ''Replaced by new connection'' \<and>
             fst (state_of (setupUserConnection now env d conns ws userId)) userId = Some ws \<and>
             conns'' userId = None \<and>
             (\<forall>u. u \<noteq> userId \<longrightarrow> conns'' u = conns u) \<and>
             (available d \<and> users d userId \<noteq> None \<longrightarrow>
                (\<exists>u. users d'' userId = Some u \<and> u_status u = ''offline''))"
  using assms
  by (auto simp: replaceThenClose_def setupUserConnection_def onClose_def updateUserPresence_def
      Let_def split: option.splits)

text \<open>
  A run of it: \<open>u1\<close> is connected on socket 1 and connects again on socket 5. Socket 1
  is closed as replaced; after its \<^verbatim>\<open>close\<close> event \<open>u1\<close> has no registered
  socket and is offline in the database.
\<close>

theorem replaced_socket_close_unregisters_new_witness:
  "example_conns ''u1'' = Some 1 \<and> readyState example_env 1 = 1 \<and>
   (case replaceThenClose 7000 7500 example_env example_db example_conns 5 ''u1'' of
      (conns'', d'', effs) \<Rightarrow>
        hd effs = WsClose 1 1000 ''Replaced by new connection'' \<and>
        conns'' ''u1'' = None \<and>
        users d'' ''u1'' = Some \<lparr>u_status = ''offline'', u_lastSeen = Some 7500\<rparr>)"
proof -
  have a: "example_conns ''u1'' = Some 1" by (simp add: example_conns_def)
  have b: "readyState example_env 1 = 1" by (simp add: example_env_def)
  have c: "''u1'' \<noteq> []" by simp
  have d: "available example_db" "users example_db ''u1''
      = Some \<lparr>u_status = ''online'', u_lastSeen = Some 100\<rparr>"
    by (simp_all add: example_db_def)
  have e: "case replaceThenClose 7000 7500 example_env example_db example_conns 5 ''u1'' of
      (conns'', d'', effs) \<Rightarrow> users d'' ''u1''
        = Some \<lparr>u_status = ''offline'', u_lastSeen = Some 7500\<rparr>"
    by (simp add: replaceThenClose_def setupUserConnection_def onClose_def updateUserPresence_def
        Let_def a b d example_env_def)
  from replaced_socket_close_unregisters_new
    [where conns = example_conns and userId = "''u1''" and old = 1 and env = example_env
       and now = 7000 and later = 7500 and d = example_db and ws = 5, OF a b c] a b e
  show ?thesis by (auto split: prod.splits)
qed

section \<open>Broadcast fan-out\<close>

lemma deliveries_filter:
  "deliveries env conns ex members =
     map (\<lambda>u. the (conns u))
       (filter (\<lambda>u. Some u \<noteq> ex \<and>
                  (case conns u of None \<Rightarrow> False
                   | Some ws \<Rightarrow> readyState env ws = 1 \<and> \<not> send_throws env ws)) members)"
  by (induction members) (auto split: option.splits)

text \<open>
  Claim C6, as amended. \<^verbatim>\<open>broadcastToChannel\<close> always resolves to
  \<^verbatim>\<open>undefined\<close> and never throws, whether members are offline, single sends fail or
  the membership query itself fails. With the database up, it writes the event to the open
  socket of every member but the excluded one, skipping those whose send throws, and then
  logs two numbers: how many sockets were written to and how many members the channel has.
\<close>

theorem broadcast_logs_counts:
  "snd (broadcastToChannel env d conns channelId event excludeUserId) = Undefined \<and>
   (\<not> available d \<longrightarrow> fst (broadcastToChannel env d conns channelId event excludeUserId) = []) \<and>
   (available d \<longrightarrow>
      (\<exists>sent. fst (broadcastToChannel env d conns channelId event excludeUserId)
                 = map (\<lambda>ws. WsSend ws event) sent @
                   [LogBroadcast (length sent) (length (membersOf d channelId))] \<and>
              length sent \<le> length (membersOf d channelId) \<and>
              sent = map (\<lambda>u. the (conns u))
                       (filter (\<lambda>u. Some u \<noteq> excludeUserId \<and>
                                  (case conns u of None \<Rightarrow> False
                                   | Some ws \<Rightarrow> readyState env ws = 1 \<and> \<not> send_throws env ws))
                          (membersOf d channelId))))"
  by (simp add: broadcastToChannel_def Let_def deliveries_filter)

theorem broadcast_logs_counts_witness:
  "available example_db \<and>
   snd (broadcastToChannel example_env example_db example_conns ''c1'' (ERROR ''x'') (Some ''u1''))
     = Undefined \<and>
   fst (broadcastToChannel example_env example_db example_conns ''c1'' (ERROR ''x'') (Some ''u1''))
     = [WsSend 2 (ERROR ''x''), LogBroadcast 1 3]"
  using broadcast_logs_counts
    [where env = example_env and d = example_db and conns = example_conns
       and channelId = "''c1''" and event = "ERROR ''x''" and excludeUserId = "Some ''u1''"]
  by (simp add: example_db_def example_conns_def example_env_def membersOf_def)

text \<open>
  Claim C6 as stated fails. A message event goes to a channel of three members, one of
  them offline: two sockets receive it, the log line carries 2 and 3, and the call
  resolves to \<^verbatim>\<open>undefined\<close>, not to a delivery report.
\<close>

theorem broadcast_returns_no_report:
  "broadcastToChannel example_env example_db example_conns ''c1''
      (MESSAGE_RECEIVED \<lparr>m_id = ''m2'', m_channelId = ''c1'', m_authorId = ''u1'',
                          m_content = ''hi'', m_sentAt = 6000, m_deletedAt = None\<rparr>) None
     = ([WsSend 1 (MESSAGE_RECEIVED \<lparr>m_id = ''m2'', m_channelId = ''c1'', m_authorId = ''u1'',
                          m_content = ''hi'', m_sentAt = 6000, m_deletedAt = None\<rparr>),
         WsSend 2 (MESSAGE_RECEIVED \<lparr>m_id = ''m2'', m_channelId = ''c1'', m_authorId = ''u1'',
                          m_content = ''hi'', m_sentAt = 6000, m_deletedAt = None\<rparr>),
         LogBroadcast 2 3], Undefined)"
  by (simp add: broadcastToChannel_def example_db_def example_conns_def example_env_def
      membersOf_def)

section \<open>Cache validation and the channel fetch\<close>

lemma clear_connected: "isConnected c \<Longrightarrow> clearAllChannelCaches c = c"
  by (simp add: clearAllChannelCaches_def RedisCache_clearAllChannelCaches_def)

lemma redis_get_connected:
  "isConnected c \<Longrightarrow> upstash_up c \<Longrightarrow> redis_get now c key = (upstash c key, c)"
  by (simp add: redis_get_def)

lemma mismatch_iff:
  "(length (filter (\<lambda>c. f c \<notin> set (map g ys)) xs) > 0 \<or>
    length (filter (\<lambda>c. g c \<notin> set (map f xs)) ys) > 0)
   \<longleftrightarrow> set (map f xs) \<noteq> set (map g ys)"
  by (auto simp: filter_empty_conv)

lemma validate_result:
  assumes "available d"
  shows "validateCacheVsDatabase now d cache userId =
     (if set (map c_id (visibleChannels d userId))
           = set (map row_id (cachedChannelsFor now cache userId))
      then (True, snd (redis_get now (snd (redis_get now cache (getUserChannelsKey userId)))
                         ''channels:public''))
      else (False, clearAllChannelCaches
                     (snd (redis_get now (snd (redis_get now cache (getUserChannelsKey userId)))
                         ''channels:public''))))"
  using assms
  unfolding validateCacheVsDatabase_def cachedChannelsFor_def case_prod_beta Let_def mismatch_iff
  by simp

lemma validate_connected:
  "isConnected c \<Longrightarrow> upstash_up c \<Longrightarrow> snd (validateCacheVsDatabase now d c userId) = c"
  by (cases "available d")
    (simp_all add: validate_result redis_get_connected clear_connected,
     simp add: validateCacheVsDatabase_def)

text \<open>
  Claim C4 (the code departs from it). With the remote store connected and answering,
  and both lists cached, \<^verbatim>\<open>handleFetchChannels\<close> sends the cached lists merged and
  leaves the cache as it is, whatever the source of record says: the validation runs, but
  \<^verbatim>\<open>RedisCache.clearAllChannelCaches\<close> deletes nothing when connected and the
  handler ignores the verdict. The concrete run after the theorem has the cache of
  \<open>u2\<close> list channel \<open>c2\<close>, which \<open>u2\<close> is no longer a member of: the validation
  finds the mismatch, and the stale list is sent all the same.
\<close>

theorem stale_cache_served_when_connected:
  assumes "isConnected cache" and "upstash_up cache"
      and "upstash cache (getUserChannelsKey userId) = Some u"
      and "upstash cache ''channels:public'' = Some p"
  shows "handleFetchChannels now d cache ws userId
           = (d, cache, [WsSend ws (CHANNELS_LOADED (mergeChannels u p))])"
proof -
  obtain isValid where v: "validateCacheVsDatabase now d cache userId = (isValid, cache)"
    using validate_connected [OF assms(1,2), of now d userId]
    by (cases "validateCacheVsDatabase now d cache userId") simp
  show ?thesis
    using assms by (simp add: handleFetchChannels_def v redis_get_connected)
qed

theorem stale_cache_served_when_connected_witness:
  "visibleChannels example_db ''u2''
     = [\<lparr>c_id = ''c1'', c_name = ''General'', c_type = ''text-group'', c_isPrivate = False\<rparr>] \<and>
   fst (validateCacheVsDatabase 1000 example_db example_stale_cache ''u2'') = False \<and>
   handleFetchChannels 1000 example_db example_stale_cache 2 ''u2''
     = (example_db, example_stale_cache, [WsSend 2 (CHANNELS_LOADED [row_c2, row_c1])])"
proof -
  have a: "isConnected example_stale_cache" "upstash_up example_stale_cache"
    by (simp_all add: example_stale_cache_def)
  have b: "upstash example_stale_cache (getUserChannelsKey ''u2'') = Some [row_c2, row_c1]"
    by (simp add: example_stale_cache_def getUserChannelsKey_def)
  have c: "upstash example_stale_cache ''channels:public'' = Some [row_c1]"
    by (simp add: example_stale_cache_def)
  have m: "mergeChannels [row_c2, row_c1] [row_c1] = [row_c2, row_c1]"
    by (simp add: mergeChannels_def row_id_def row_c1_def row_c2_def)
  have av: "available example_db" by (simp add: example_db_def)
  have vis: "visibleChannels example_db ''u2''
     = [\<lparr>c_id = ''c1'', c_name = ''General'', c_type = ''text-group'', c_isPrivate = False\<rparr>]"
    by (simp add: visibleChannels_def example_db_def isMember_def)
  have cc: "cachedChannelsFor 1000 example_stale_cache ''u2'' = [row_c2, row_c1]"
    by (simp add: cachedChannelsFor_def redis_get_connected a b c cachedChannelsOf_def m)
  have inv: "fst (validateCacheVsDatabase 1000 example_db example_stale_cache ''u2'') = False"
    by (simp add: validate_result [OF av] cc vis row_id_def row_c1_def row_c2_def)
  from stale_cache_served_when_connected [OF a b c, of 1000 example_db 2] m vis inv
  show ?thesis by simp
qed

lemma redis_get_keeps_absent:
  "\<not> isConnected c \<Longrightarrow> memoryCache c k = None \<Longrightarrow>
     memoryCache (snd (redis_get t c key)) k = None \<and> \<not> isConnected (snd (redis_get t c key))"
  by (simp add: redis_get_def getFromMemoryCache_def)

lemma redis_get_absent:
  "\<not> isConnected c \<Longrightarrow> memoryCache c k = None \<Longrightarrow> fst (redis_get t c k) = None"
  by (simp add: redis_get_def getFromMemoryCache_def)

lemma redis_get_disconnected:
  "\<not> isConnected c \<Longrightarrow> \<not> isConnected (snd (redis_get t c key))"
  by (simp add: redis_get_def getFromMemoryCache_def)

lemma clear_disconnected:
  "\<not> isConnected c \<Longrightarrow>
     memoryCache (clearAllChannelCaches c) ''channels:public'' = None \<and>
     \<not> isConnected (clearAllChannelCaches c)"
  by (simp add: clearAllChannelCaches_def RedisCache_clearAllChannelCaches_def)

lemma cacheAndSend_effects:
  "snd (cacheAndSend now cache ws userId chs) = [WsSend ws (CHANNELS_LOADED chs)]"
  by (simp add: cacheAndSend_def Let_def)

lemma fetchChannelsFromDb_sends:
  "\<exists>d' cache'. fetchChannelsFromDb now d cache ws userId
      = (d', cache', [WsSend ws (CHANNELS_LOADED (fetchChannels d' userId))])"
proof (cases "find (\<lambda>c. isGeneral (cr_channel c)) (fetchChannels d userId)")
  case (Some a)
  then show ?thesis
    by (simp add: fetchChannelsFromDb_def cacheAndSend_def Let_def)
next
  case None
  then show ?thesis
    by (cases "find isGeneral (channels d)")
      (simp_all add: fetchChannelsFromDb_def cacheAndSend_def Let_def)
qed

text \<open>
  With the in-process fallback the fetch does what the claim says, short of invalidating
  the user's own entry (it is overwritten): a failed validation deletes the public list,
  and the handler then sends the list rebuilt from the source of record.
\<close>

lemma fallback_fetch_rebuilds:
  assumes "\<not> isConnected cache" and "available d"
      and "fst (validateCacheVsDatabase now d cache userId) = False"
  shows "\<exists>d' cache'. handleFetchChannels now d cache ws userId
            = (d', cache', [WsSend ws (CHANNELS_LOADED (fetchChannels d' userId))])"
proof -
  let ?c1 = "snd (redis_get now cache (getUserChannelsKey userId))"
  let ?c2 = "snd (redis_get now ?c1 ''channels:public'')"
  have nc: "\<not> isConnected ?c2"
    using assms(1) by (intro redis_get_disconnected)
  have v: "validateCacheVsDatabase now d cache userId = (False, clearAllChannelCaches ?c2)"
    using assms(3) unfolding validate_result [OF assms(2)] by (simp split: if_splits)
  let ?c3 = "snd (redis_get now (clearAllChannelCaches ?c2) (getUserChannelsKey userId))"
  have "memoryCache ?c3 ''channels:public'' = None \<and> \<not> isConnected ?c3"
    using clear_disconnected [OF nc] by (intro redis_get_keeps_absent) simp_all
  then have pub: "fst (redis_get now ?c3 ''channels:public'') = None"
    by (intro redis_get_absent) simp_all
  have "handleFetchChannels now d cache ws userId
      = fetchChannelsFromDb now d (snd (redis_get now ?c3 ''channels:public'')) ws userId"
    using assms(2) pub by (simp add: handleFetchChannels_def v case_prod_beta)
  then show ?thesis using fetchChannelsFromDb_sends by simp
qed

text \<open>
  The stale entries of the example in the in-process fallback: the public list is deleted,
  the list is rebuilt from the source of record and both entries are written anew.
\<close>

lemma fallback_fetch_rebuilds_example:
  "fst (validateCacheVsDatabase 1000 example_db example_stale_memory ''u2'') = False \<and>
   handleFetchChannels 1000 example_db example_stale_memory 2 ''u2''
     = (example_db,
        example_stale_memory
          \<lparr>memoryCache := [''user:u2:channels'' \<mapsto> [row_c1], ''channels:public'' \<mapsto> [row_c1]],
            memoryCacheExpiry := [''user:u2:channels'' \<mapsto> 121000, ''channels:public'' \<mapsto> 121000]\<rparr>,
        [WsSend 2 (CHANNELS_LOADED [row_c1])])"
proof -
  have av: "available example_db" by (simp add: example_db_def)
  have vis: "visibleChannels example_db ''u2''
     = [\<lparr>c_id = ''c1'', c_name = ''General'', c_type = ''text-group'', c_isPrivate = False\<rparr>]"
    by (simp add: visibleChannels_def example_db_def isMember_def)
  have fc: "fetchChannels example_db ''u2'' = [row_c1]"
    by (simp add: fetchChannels_def vis row_c1_def membersOf_def ex_db_simps)
  have e: "\<not> expired 1000 example_stale_memory k" for k
    by (simp add: expired_def example_stale_memory_def)
  have g1: "redis_get 1000 example_stale_memory (getUserChannelsKey ''u2'')
      = (Some [row_c2, row_c1], example_stale_memory)"
    by (simp add: redis_get_def getFromMemoryCache_def e)
      (simp add: example_stale_memory_def getUserChannelsKey_def)
  have g2: "redis_get 1000 example_stale_memory ''channels:public''
      = (Some [row_c1], example_stale_memory)"
    by (simp add: redis_get_def getFromMemoryCache_def e) (simp add: example_stale_memory_def)
  have cc: "cachedChannelsFor 1000 example_stale_memory ''u2'' = [row_c2, row_c1]"
    by (simp add: cachedChannelsFor_def g1 g2 cachedChannelsOf_def mergeChannels_def row_id_def
        row_c1_def row_c2_def)
  let ?cleared = "example_stale_memory
      \<lparr>memoryCache := [''user:u2:channels'' \<mapsto> [row_c2, row_c1]],
        memoryCacheExpiry := [''user:u2:channels'' \<mapsto> 120000]\<rparr>"
  have cl: "clearAllChannelCaches example_stale_memory = ?cleared"
    by (simp add: clearAllChannelCaches_def RedisCache_clearAllChannelCaches_def
        example_stale_memory_def fun_eq_iff)
  have v: "validateCacheVsDatabase 1000 example_db example_stale_memory ''u2'' = (False, ?cleared)"
    by (simp add: validate_result [OF av] cc vis g1 g2 cl row_id_def row_c1_def row_c2_def)
  have e': "\<not> expired 1000 ?cleared k" for k
    by (simp add: expired_def example_stale_memory_def)
  have g3: "redis_get 1000 ?cleared (getUserChannelsKey ''u2'') = (Some [row_c2, row_c1], ?cleared)"
    by (simp add: redis_get_def getFromMemoryCache_def e')
      (simp add: example_stale_memory_def getUserChannelsKey_def)
  have g4: "redis_get 1000 ?cleared ''channels:public'' = (None, ?cleared)"
    by (simp add: redis_get_def getFromMemoryCache_def e') (simp add: example_stale_memory_def)
  have db: "fetchChannelsFromDb 1000 example_db ?cleared 2 ''u2''
      = (example_db,
         example_stale_memory
          \<lparr>memoryCache := [''user:u2:channels'' \<mapsto> [row_c1], ''channels:public'' \<mapsto> [row_c1]],
            memoryCacheExpiry := [''user:u2:channels'' \<mapsto> 121000, ''channels:public'' \<mapsto> 121000]\<rparr>,
         [WsSend 2 (CHANNELS_LOADED [row_c1])])"
    by (simp add: fetchChannelsFromDb_def fc cacheAndSend_def Let_def)
      (simp add: row_c1_def isGeneral_def redis_set_def setInMemoryCache_def
         example_stale_memory_def getUserChannelsKey_def fun_eq_iff)
  show ?thesis
    by (simp add: v handleFetchChannels_def g3 g4 av db)
qed






section \<open>Unread counts\<close>

lemma sorted_le_last: "sorted xs \<Longrightarrow> x \<in> set xs \<Longrightarrow> x \<le> last (xs :: int list)"
  by (induction xs) auto

lemma findFirst_desc_Max:
  "findFirst_desc ts = (if ts = [] then None else Some (Max (set ts)))"
proof (cases "ts = []")
  case True
  then show ?thesis by (simp add: findFirst_desc_def)
next
  case False
  then have ne: "sort ts \<noteq> []" by (metis length_sort length_0_conv)
  have "last (sort ts) \<in> set (sort ts)" using ne by (rule last_in_set)
  then have "Max (set (sort ts)) = last (sort ts)"
    by (intro Max_eqI) (auto intro: sorted_le_last)
  then have m: "last (sort ts) = Max (set ts)" by simp
  from ne obtain t rest where r: "rev (sort ts) = t # rest"
    by (cases "rev (sort ts)") auto
  then have "t = last (sort ts)" by (metis last_rev list.sel(1) rev_rev_ident hd_rev)
  with m r False show ?thesis by (simp add: findFirst_desc_def)
qed

lemma acks_set:
  "{r_readAt r | r. r \<in> set (readReceipts d) \<and> r_userId r = userId \<and>
      (\<exists>m \<in> set (messages d). m_id m = r_messageId r \<and> m_channelId m = channelId)}
   = set (map r_readAt (receiptsIn d userId channelId))"
  by (auto simp: receiptsIn_def list_ex_iff)

lemma getLastReadTime_spec:
  "available d \<Longrightarrow> getLastReadTime d userId channelId = watermark_spec d userId channelId"
  unfolding watermark_spec_def acks_set getLastReadTime_def findFirst_desc_Max
  by (simp add: Let_def)

text \<open>
  Claim C8, as amended. When the database answers, the watermark that
  \<^verbatim>\<open>getLastReadTime\<close> computes is the one of the specification (most recent read
  receipt, else last-seen time, else the epoch), and for an identity that is a member of
  the conversation \<^verbatim>\<open>calculateChannelUnreadCount\<close> is the number of messages of the
  conversation that are not soft-deleted, were written by someone else and were sent
  strictly after the watermark. For an identity that is not a member the count is 0.
\<close>

theorem unread_count_of_member:
  assumes "available d"
  shows "getLastReadTime d userId channelId = watermark_spec d userId channelId \<and>
         calculateChannelUnreadCount d userId channelId
           = (if isMember d channelId userId then unread_spec d userId channelId else 0)"
  using assms
  by (simp add: getLastReadTime_spec calculateChannelUnreadCount_def unread_spec_def)

theorem unread_count_of_member_witness:
  "available example_db_after \<and> isMember example_db_after ''c1'' ''u3'' \<and>
   getLastReadTime example_db_after ''u3'' ''c1'' = 200 \<and>
   calculateChannelUnreadCount example_db_after ''u3'' ''c1'' = 1 \<and>
   unread_spec example_db_after ''u3'' ''c1'' = 1"
proof -
  have av: "available example_db_after" by (simp add: example_db_after_def ex_db_simps)
  have mem: "isMember example_db_after ''c1'' ''u3''"
    by (simp add: isMember_def example_db_after_def ex_db_simps)
  have w: "getLastReadTime example_db_after ''u3'' ''c1'' = 200"
    by (simp add: getLastReadTime_def receiptsIn_def findFirst_desc_def example_db_after_def
        ex_db_simps)
  have c: "calculateChannelUnreadCount example_db_after ''u3'' ''c1'' = 1"
    by (simp add: calculateChannelUnreadCount_def av mem w)
      (simp add: example_db_after_def ex_db_simps example_message_def)
  from unread_count_of_member [OF av, of "''u3''" "''c1''"] av mem w c show ?thesis by simp
qed

text \<open>
  Claim C8 as stated fails for an identity outside the conversation: \<open>u2\<close> is not a
  member of \<open>c2\<close>, which holds one message of \<open>u1\<close> sent after the epoch; the count of
  the specification is 1, the code returns 0.
\<close>

theorem non_member_unread_is_zero:
  "\<not> isMember example_db ''c2'' ''u2'' \<and>
   unread_spec example_db ''u2'' ''c2'' = 1 \<and>
   calculateChannelUnreadCount example_db ''u2'' ''c2'' = 0"
proof -
  have w: "watermark_spec example_db ''u2'' ''c2'' = 0"
    by (simp add: watermark_spec_def ex_db_simps)
  show ?thesis
    by (simp add: unread_spec_def w calculateChannelUnreadCount_def isMember_def ex_db_simps)
qed

section \<open>A new message and the cached counters\<close>

lemma channelKey_neq_totalKey: "channelKey u c \<noteq> totalKey u'"
  by (simp add: channelKey_def totalKey_def)

lemma allKey_neq_totalKey: "allKey u \<noteq> totalKey u'"
  by (simp add: allKey_def totalKey_def)

lemma invalidate_deletes_total_only:
  "key \<noteq> totalKey userId \<Longrightarrow>
     memoryCache (invalidateCountCaches cache userId channelId) key = memoryCache cache key \<and>
     memoryCacheExpiry (invalidateCountCaches cache userId channelId) key
       = memoryCacheExpiry cache key \<and>
     upstash (invalidateCountCaches cache userId channelId) key = upstash cache key"
  by (simp add: invalidateCountCaches_def redis_del_def)

lemma invalidate_total:
  "\<not> falsy channelId \<Longrightarrow> \<not> isConnected cache \<or> upstash_up cache \<Longrightarrow>
     fst (redis_get t (invalidateCountCaches cache userId channelId) (totalKey userId)) = None"
  by (auto simp: invalidateCountCaches_def redis_del_def redis_get_def getFromMemoryCache_def
      expired_def)

text \<open>
  The first loop of \<^verbatim>\<open>handleNewMessage\<close> deletes the total counter and nothing
  else: for every user the per-conversation counter and the map of all counts are after
  the loop what they were before it, in the in-process cache and in the remote store.
\<close>

lemma channel_counter_survives_invalidation:
  "memoryCache (invalidateMembers cache channelId members) (channelKey u channelId)
     = memoryCache cache (channelKey u channelId) \<and>
   memoryCacheExpiry (invalidateMembers cache channelId members) (channelKey u channelId)
     = memoryCacheExpiry cache (channelKey u channelId) \<and>
   upstash (invalidateMembers cache channelId members) (channelKey u channelId)
     = upstash cache (channelKey u channelId) \<and>
   memoryCache (invalidateMembers cache channelId members) (allKey u)
     = memoryCache cache (allKey u) \<and>
   upstash (invalidateMembers cache channelId members) (allKey u) = upstash cache (allKey u)"
  unfolding invalidateMembers_def
  by (induction members arbitrary: cache)
    (simp_all add: invalidate_deletes_total_only channelKey_neq_totalKey allKey_neq_totalKey)

lemma ex_after_simps:
  "available example_db_after"
  "messages example_db_after = [\<lparr>m_id = ''m1'', m_channelId = ''c2'', m_authorId = ''u1'',
       m_content = ''hello'', m_sentAt = 5000, m_deletedAt = None\<rparr>, example_message]"
  "readReceipts example_db_after = []"
  "channelMembers example_db_after
     = [(''c1'', ''u1''), (''c1'', ''u2''), (''c1'', ''u3''), (''c2'', ''u1'')]"
  "users example_db_after ''u2'' = Some \<lparr>u_status = ''online'', u_lastSeen = None\<rparr>"
  by (simp_all add: example_db_after_def example_db_def)

lemma ex_others: "otherMembers example_db_after ''c1'' ''u1'' = [''u2'', ''u3'']"
  by (simp add: otherMembers_def membersOf_def ex_after_simps)

lemma ex_unread_c1: "calculateChannelUnreadCount example_db_after ''u2'' ''c1'' = 1"
  by (simp add: calculateChannelUnreadCount_def isMember_def getLastReadTime_def receiptsIn_def
      findFirst_desc_def ex_after_simps example_message_def)

lemma ex_total: "calculateTotalUnreadCount example_db_after ''u2'' = 1"
  by (simp add: calculateTotalUnreadCount_def ex_unread_c1 ex_after_simps)

lemma ex_invalidated:
  "invalidateMembers example_counts ''c1'' [''u2'', ''u3'']
     = example_counts\<lparr>memoryCache := [''notification:count:channel:u2:c1'' \<mapsto> 0],
                        memoryCacheExpiry := [''notification:count:channel:u2:c1'' \<mapsto> 300000]\<rparr>"
  by (simp add: invalidateMembers_def invalidateCountCaches_def falsy_def redis_del_def
      totalKey_def example_counts_def fun_eq_iff)

text \<open>
  Claim C5 (the code departs from it). \<open>u1\<close> posts a message in \<open>c1\<close>, whose other
  members are \<open>u2\<close> (connected) and \<open>u3\<close> (offline); the cache holds 0 as the total and
  as the per-conversation counter of \<open>u2\<close>. The database now counts one unread message
  for \<open>u2\<close> in \<open>c1\<close>. The invalidation deletes the total but leaves the
  per-conversation counter, so the event pushed to \<open>u2\<close> carries the stale 0 for the
  conversation next to the recomputed total 1, and the stale counter is still cached
  afterwards.
\<close>

theorem new_message_pushes_stale_channel_count:
  "calculateChannelUnreadCount example_db_after ''u2'' ''c1'' = 1 \<and>
   snd (handleNewMessage 7000 example_env example_db_after example_counts example_conns
          example_message)
     = [WsSend 2 (UNREAD_COUNT_UPDATE ''c1'' 0 1)] \<and>
   memoryCache (fst (handleNewMessage 7000 example_env example_db_after example_counts
                       example_conns example_message))
        (channelKey ''u2'' ''c1'') = Some 0 \<and>
   memoryCache (invalidateMembers example_counts ''c1''
                  (otherMembers example_db_after ''c1'' ''u1'')) (totalKey ''u2'') = None"
proof -
  let ?c1 = "example_counts\<lparr>memoryCache := [''notification:count:channel:u2:c1'' \<mapsto> 0],
               memoryCacheExpiry := [''notification:count:channel:u2:c1'' \<mapsto> 300000]\<rparr>"
  have g1: "getChannelUnreadCount 7000 example_db_after ?c1 ''u2'' ''c1'' = (0, ?c1)"
    by (simp add: getChannelUnreadCount_def channelKey_def redis_get_def getFromMemoryCache_def
        expired_def example_counts_def Let_def)
  have g2: "fst (getTotalUnreadCount 7000 example_db_after ?c1 ''u2'') = 1"
    by (simp add: getTotalUnreadCount_def totalKey_def redis_get_def getFromMemoryCache_def
        expired_def example_counts_def ex_total [unfolded totalKey_def] case_prod_beta Let_def)
  have g3: "memoryCache (snd (getTotalUnreadCount 7000 example_db_after ?c1 ''u2''))
       ''notification:count:channel:u2:c1'' = Some 0"
    by (simp add: getTotalUnreadCount_def totalKey_def redis_get_def getFromMemoryCache_def
        expired_def example_counts_def redis_set_def setInMemoryCache_def case_prod_beta Let_def)
  have conns: "example_conns ''u2'' = Some 2" "example_conns ''u3'' = None"
    "readyState example_env 2 = 1" "\<not> send_throws example_env 2"
    by (simp_all add: example_conns_def example_env_def)
  have h: "handleNewMessage 7000 example_env example_db_after example_counts example_conns
             example_message
      = (snd (getTotalUnreadCount 7000 example_db_after ?c1 ''u2''),
         [WsSend 2 (UNREAD_COUNT_UPDATE ''c1'' 0 1)])"
    by (simp add: handleNewMessage_def ex_after_simps example_message_def ex_others
        ex_invalidated conns g1 g2 case_prod_beta Let_def)
  show ?thesis
    by (simp add: h g3 ex_unread_c1 ex_others ex_invalidated channelKey_def totalKey_def)
qed

section \<open>Sending a message\<close>













text \<open>
  Even a send that fails has its side effect. When the sender is not a member and the
  payload is one the handler throws on (attachments \<^verbatim>\<open>null\<close>, no content, or a
  reply to a message that does not exist), the throw comes after the membership has been
  written, and the membership stays.
\<close>

lemma malformed_send_still_joins:
  assumes "available d" and "users d userId \<noteq> None"
      and "sp_channelId pl \<in> set (map c_id (channels d))"
      and "\<not> isMember d (sp_channelId pl) userId"
      and "sp_attachments pl = AttachmentsNull \<or> sp_content pl = None \<or>
           (\<exists>r. sp_repliedToMessageId pl = Some r \<and> r \<notin> set (map m_id (messages d)))"
  shows "\<exists>e. handleSendMessage now env d cache conns userId (Some pl) newId
           = Threw e (d\<lparr>channelMembers := channelMembers d @ [(sp_channelId pl, userId)]\<rparr>,
                      cache, [])"
  using assms
  by (auto simp: handleSendMessage_def memberCreatable_def messageCreatable_def Let_def
      split: attachments_field.splits sum.splits option.splits)

section \<open>Marking a message as read\<close>

text \<open>
  Claim C10. With the database up, a \<^verbatim>\<open>MARK_AS_READ\<close> whose message id names no
  message, or names a message of a channel the sender is not a member of, returns
  normally (nothing is thrown, so the dispatcher sends no error) with the database
  unchanged (no read receipt), the cache unchanged (no recomputation) and no event sent.
  This holds for the handler of part_001 and for the copy the server dispatches to, and
  the dispatcher adds nothing.
\<close>

theorem mark_as_read_returns_silently:
  assumes "available d"
      and "messageId \<notin> set (map m_id (messages d)) \<or>
           (\<exists>msg. find (\<lambda>m. m_id m = messageId) (messages d) = Some msg \<and>
                  \<not> isMember d (m_channelId msg) userId)"
  shows "handleMarkAsRead now d userId messageId = Returned (d, []) \<and>
         handleMarkAsRead_server now env d cache conns userId messageId = Returned (d, cache, []) \<and>
         dispatchMarkAsRead now env d cache conns ws userId messageId = (d, cache, [])"
proof -
  from assms(2) consider "find (\<lambda>m. m_id m = messageId) (messages d) = None"
    | msg where "find (\<lambda>m. m_id m = messageId) (messages d) = Some msg"
        "\<not> isMember d (m_channelId msg) userId"
    by (auto simp: find_None_iff)
  then show ?thesis
    using assms(1)
    by cases
      (simp_all add: handleMarkAsRead_def handleMarkAsRead_server_def dispatchMarkAsRead_def)
qed

theorem mark_as_read_returns_silently_witness:
  "''m9'' \<notin> set (map m_id (messages example_db)) \<and>
   handleMarkAsRead 7000 example_db ''u1'' ''m9'' = Returned (example_db, []) \<and>
   find (\<lambda>m. m_id m = ''m1'') (messages example_db) = Some (hd (messages example_db)) \<and>
   \<not> isMember example_db (m_channelId (hd (messages example_db))) ''u2'' \<and>
   handleMarkAsRead 7000 example_db ''u2'' ''m1'' = Returned (example_db, []) \<and>
   handleMarkAsRead_server 7000 example_env example_db example_counts example_conns ''u2'' ''m1''
     = Returned (example_db, example_counts, []) \<and>
   dispatchMarkAsRead 7000 example_env example_db example_counts example_conns 2 ''u2'' ''m1''
     = (example_db, example_counts, [])"
proof -
  have a: "''m9'' \<notin> set (map m_id (messages example_db))" by (simp add: ex_db_simps)
  have f: "find (\<lambda>m. m_id m = ''m1'') (messages example_db) = Some (hd (messages example_db))"
    by (simp add: ex_db_simps)
  have nm: "\<not> isMember example_db (m_channelId (hd (messages example_db))) ''u2''"
    by (simp add: isMember_def ex_db_simps)
  from f nm have b: "''m1'' \<notin> set (map m_id (messages example_db)) \<or>
      (\<exists>msg. find (\<lambda>m. m_id m = ''m1'') (messages example_db) = Some msg \<and>
             \<not> isMember example_db (m_channelId msg) ''u2'')"
    by blast
  from a have a': "''m9'' \<notin> set (map m_id (messages example_db)) \<or>
      (\<exists>msg. find (\<lambda>m. m_id m = ''m9'') (messages example_db) = Some msg \<and>
             \<not> isMember example_db (m_channelId msg) ''u1'')"
    by blast
  from mark_as_read_returns_silently [OF ex_db_simps(1) a', of 7000]
       mark_as_read_returns_silently [OF ex_db_simps(1) b, of 7000 example_env example_counts
         example_conns 2]
       a f nm
  show ?thesis by blast
qed

text \<open>For contrast, a member's request does write the receipt.\<close>

lemma mark_as_read_member_writes_receipt:
  "handleMarkAsRead 7000 example_db ''u1'' ''m1''
     = Threw ''connections is not defined''
         (example_db\<lparr>readReceipts := [\<lparr>r_messageId = ''m1'', r_userId = ''u1'', r_readAt = 7000\<rparr>]\<rparr>, [])"
  by (simp add: handleMarkAsRead_def upsertReadReceipt_def isMember_def ex_db_simps)

end
